theory Spec2Isabelle
  imports Main "HOL-Library.Word"
begin

section \<open>create-tftf: the TFTF layout and header engine\<close>

text \<open>
  A shallow embedding of \<^verbatim>\<open>src/create-tftf/create-tftf.c\<close> and of the structures of
  \<^verbatim>\<open>src/include/tftf.h\<close>. Every C function keeps its name. Unsigned 32-bit fields are
  \<open>32 word\<close> (arithmetic wraps as \<^verbatim>\<open>uint32_t\<close> does), C \<^verbatim>\<open>int\<close> and \<^verbatim>\<open>ssize_t\<close>
  values are \<open>int\<close>, \<^verbatim>\<open>char\<close> arrays are \<open>string\<close>, and the answers of the operating
  system (open, read, write, time) are inputs of the model. What the program prints
  (\<^verbatim>\<open>usage\<close>, \<^verbatim>\<open>print_tftf_header\<close>, the messages on \<^verbatim>\<open>stderr\<close>) changes no state and
  is left out, except for the warnings of \<^verbatim>\<open>validate_tftf_header\<close>, which are returned
  as a list.
\<close>

type_synonym u8 = "8 word"
type_synonym u32 = "32 word"

subsection \<open>tftf.h\<close>

definition TFTF_SENTINEL :: u32 where
  "TFTF_SENTINEL = 0x46544654"

text \<open>\<^verbatim>\<open>enum tftf_section_type\<close>: the enumerators are C \<^verbatim>\<open>int\<close> constants.\<close>

definition TFTF_SECTION_TYPE_RAW_CODE_BLOCK :: int where
  "TFTF_SECTION_TYPE_RAW_CODE_BLOCK = 0x01"

definition TFTF_SECTION_TYPE_RAW_DATA_BLOCK :: int where
  "TFTF_SECTION_TYPE_RAW_DATA_BLOCK = 0x02"

definition TFTF_SECTION_TYPE_COMPRESSED_CODE_BLOCK :: int where
  "TFTF_SECTION_TYPE_COMPRESSED_CODE_BLOCK = 0x03"

definition TFTF_SECTION_TYPE_COMPRESSED_DATA_BLOCK :: int where
  "TFTF_SECTION_TYPE_COMPRESSED_DATA_BLOCK = 0x04"

definition TFTF_SECTION_TYPE_MANIFEST :: int where
  "TFTF_SECTION_TYPE_MANIFEST = 0x05"

definition TFTF_SECTION_TYPE_SIGNATURE_BLOCK :: int where
  "TFTF_SECTION_TYPE_SIGNATURE_BLOCK = 0x8f"

definition TFTF_SECTION_TYPE_CERTIFICATE :: int where
  "TFTF_SECTION_TYPE_CERTIFICATE = 0x90"

definition TFTF_SECTION_TYPE_END_OF_DESCRIPTORS :: int where
  "TFTF_SECTION_TYPE_END_OF_DESCRIPTORS = 0xFE"

definition TFTF_TIMESTAMP_LENGTH :: nat where
  "TFTF_TIMESTAMP_LENGTH = 16"

definition TFTF_FW_PKG_NAME_LENGTH :: nat where
  "TFTF_FW_PKG_NAME_LENGTH = 48"

definition TFTF_HDR_LENGTH :: nat where
  "TFTF_HDR_LENGTH = 512"

definition TFTF_MAX_SECTIONS :: nat where
  "TFTF_MAX_SECTIONS = 25"

definition TFTF_PADDING :: nat where
  "TFTF_PADDING = 12"

text \<open>\<^verbatim>\<open>struct tftf_section\<close> (packed, four 32-bit fields).\<close>

record tftf_section =
  section_length :: u32
  expanded_length :: u32
  copy_offset :: u32
  section_type :: u32

text \<open>
  \<^verbatim>\<open>struct tftf_hdr\<close> (packed, 512 bytes). \<open>section_descriptors\<close> is the array of
  \<open>TFTF_MAX_SECTIONS\<close> descriptors, \<open>padding\<close> the 12 trailing bytes. The header's own
  \<^verbatim>\<open>expanded_length\<close> field shares its name with the descriptor's; the theory writes
  \<open>tftf_section.expanded_length\<close> and \<open>tftf_hdr.expanded_length\<close> in full.
\<close>

record tftf_hdr =
  sentinel :: u32
  timestamp :: string
  fw_pkg_name :: string
  load_length :: u32
  load_base :: u32
  expanded_length :: u32
  start_location :: u32
  unipro_mfg_id :: u32
  unipro_product_id :: u32
  ara_vendor_id :: u32
  ara_product_id :: u32
  section_descriptors :: "tftf_section list"
  padding :: "u8 list"

subsection \<open>create-tftf.c: constants, macros and the section cache\<close>

definition COPY_BUFFER_SIZE :: nat where
  "COPY_BUFFER_SIZE = 4096"

definition PROGRAM_SUCCESS :: int where
  "PROGRAM_SUCCESS = 0"

definition PROGRAM_WARNINGS :: int where
  "PROGRAM_WARNINGS = 1"

definition PROGRAM_ERRORS :: int where
  "PROGRAM_ERRORS = 2"

text \<open>The macro \<^verbatim>\<open>SECTION_END\<close>: the last address of a section, in 32-bit arithmetic.\<close>

definition SECTION_END :: "tftf_section \<Rightarrow> u32" where
  "SECTION_END s = tftf_section.copy_offset s + tftf_section.expanded_length s - 1"

text \<open>
  \<^verbatim>\<open>section_info\<close>: one entry of the command line's section cache. \<open>offset = 0\<close>
  means that no offset was given. The C field \<^verbatim>\<open>type\<close> is \<open>stype\<close> here.
\<close>

record section_info =
  filename :: string
  stype :: int
  offset :: u32

subsection \<open>The operating system as seen by one run\<close>

text \<open>
  The program reads each section file through \<^verbatim>\<open>open\<close> and \<^verbatim>\<open>read\<close> and appends to the
  output through \<^verbatim>\<open>write\<close>. One iteration of the copy loop of \<^verbatim>\<open>copy_file\<close> sees either
  a \<^verbatim>\<open>read\<close> that returns 0 (end of file), a \<^verbatim>\<open>read\<close> that returns -1, or a \<^verbatim>\<open>read\<close> that
  fills the buffer with some bytes followed by a \<^verbatim>\<open>write\<close> with its own return value. A
  section file is the list of what its successive iterations see (a \<^verbatim>\<open>read\<close> past the end of
  the list returns 0), or \<open>No_file\<close> when \<^verbatim>\<open>open\<close> fails.
\<close>

datatype copy_step = Read_eof | Read_error | Chunk "u8 list" int

datatype source = No_file | File "copy_step list"

text \<open>\<^verbatim>\<open>struct tm\<close>, the fields \<^verbatim>\<open>set_timestamp\<close> reads.\<close>

record tm =
  tm_year :: int
  tm_mon :: int
  tm_mday :: int
  tm_hour :: int
  tm_min :: int
  tm_sec :: int

text \<open>
  What the system answers during one run: the section files by name, whether the output
  file can be opened (\<^verbatim>\<open>O_RDWR | O_CREAT | O_TRUNC\<close>), the return value of the \<^verbatim>\<open>write\<close> of
  the header, and \<^verbatim>\<open>gmtime(time(NULL))\<close>.
\<close>

record os_env =
  sources :: "string \<Rightarrow> source"
  creat_ok :: bool
  hdr_write :: int
  now :: tm

text \<open>The files on disk, by path; only the output path is ever changed.\<close>

type_synonym disk = "string \<Rightarrow> u8 list option"

text \<open>The open output file: its bytes and the file position.\<close>

record out_file =
  content :: "u8 list"
  pos :: nat

text \<open>
  Writing \<open>bs\<close> at position \<open>p\<close> of a file: a gap between the end of the file and \<open>p\<close> reads
  as zero bytes.
\<close>

definition pwrite :: "u8 list \<Rightarrow> nat \<Rightarrow> u8 list \<Rightarrow> u8 list" where
  "pwrite c p bs =
     (if bs = [] then c
      else (let c' = c @ replicate (p + length bs - length c) 0
            in take p c' @ bs @ drop (p + length bs) c'))"

text \<open>A \<^verbatim>\<open>write\<close> of buffer \<open>buf\<close> that returns \<open>ret\<close>: the first \<open>ret\<close> bytes went out.\<close>

definition sys_write :: "out_file \<Rightarrow> u8 list \<Rightarrow> int \<Rightarrow> out_file" where
  "sys_write f buf ret =
     (if ret > 0
      then f\<lparr>content := pwrite (content f) (pos f) (take (nat ret) buf),
             pos := pos f + nat ret\<rparr>
      else f)"

subsection \<open>copy_file\<close>

text \<open>
  The \<^verbatim>\<open>do ... while (bytes_written > 0)\<close> loop. \<open>bytes_read <= 0\<close> (end of file and read
  error alike) leaves the loop, and so does a \<^verbatim>\<open>write\<close> that returns no byte.
\<close>

fun copy_loop :: "copy_step list \<Rightarrow> int \<Rightarrow> out_file \<Rightarrow> int \<times> out_file" where
  "copy_loop [] bytes_written_total output_fd = (bytes_written_total, output_fd)"
| "copy_loop (Read_eof # rest) bytes_written_total output_fd = (bytes_written_total, output_fd)"
| "copy_loop (Read_error # rest) bytes_written_total output_fd = (bytes_written_total, output_fd)"
| "copy_loop (Chunk buf bytes_written # rest) bytes_written_total output_fd =
     (if int (length buf) \<le> 0 then (bytes_written_total, output_fd)
      else if bytes_written > 0
      then copy_loop rest (bytes_written_total + bytes_written)
             (sys_write output_fd buf bytes_written)
      else (bytes_written_total, output_fd))"

text \<open>
  \<open>copy_file\<close> returns its status, the descriptor with the two out parameters
  \<^verbatim>\<open>section_length\<close> and \<^verbatim>\<open>expanded_length\<close> (written only when some byte was copied), and
  the output file.
\<close>

definition copy_file ::
  "os_env \<Rightarrow> string \<Rightarrow> out_file \<Rightarrow> tftf_section \<Rightarrow> int \<times> tftf_section \<times> out_file" where
  "copy_file env section_file_name output_fd sect =
     (let (status, bytes_written_total, fd') =
        (case sources env section_file_name of
           No_file \<Rightarrow> (- 1, 0, output_fd)
         | File steps \<Rightarrow>
             (let (total, fd') = copy_loop steps 0 output_fd in (0, total, fd')))
      in if bytes_written_total > 0
         then (status,
               sect\<lparr>section_length := word_of_int bytes_written_total,
                    tftf_section.expanded_length := word_of_int bytes_written_total\<rparr>,
               fd')
         else (2, sect, fd'))"

subsection \<open>append_tftf_section\<close>

text \<open>
  Returns \<open>0 == status\<close>, the descriptor, the copy offset advanced by the expanded length,
  and the output file. \<^verbatim>\<open>COMPRESSED_SUPPORT\<close> is not defined.
\<close>

definition append_tftf_section ::
  "os_env \<Rightarrow> out_file \<Rightarrow> string \<Rightarrow> int \<Rightarrow> tftf_section \<Rightarrow> u32
     \<Rightarrow> bool \<times> tftf_section \<times> u32 \<times> out_file" where
  "append_tftf_section env tftf_fd section_filename sec_type sect tftf_copy_offset =
     (let (status, sect1, fd') = copy_file env section_filename tftf_fd sect
      in if status = 0
         then (let sect2 = sect1\<lparr>section_type := word_of_int sec_type,
                                copy_offset := tftf_copy_offset\<rparr>
               in (True, sect2, tftf_copy_offset + tftf_section.expanded_length sect2, fd'))
         else (False, sect1, tftf_copy_offset, fd'))"

subsection \<open>set_timestamp\<close>

text \<open>The decimal digits of a natural number, as \<^verbatim>\<open>printf\<close> writes them.\<close>

definition digit_char :: "nat \<Rightarrow> char" where
  "digit_char d = ''0123456789'' ! d"

function show_nat :: "nat \<Rightarrow> string" where
  "show_nat n = (if n < 10 then [digit_char n] else show_nat (n div 10) @ [digit_char (n mod 10)])"
  by pat_completeness auto
termination
  by (relation "measure id") auto

declare show_nat.simps [simp del]

text \<open>
  The conversions \<^verbatim>\<open>%4d\<close> (at least four characters, padded with spaces on the left) and
  \<^verbatim>\<open>%02d\<close> (at least two, padded with zeros after the sign).
\<close>

definition fmt_4d :: "int \<Rightarrow> string" where
  "fmt_4d i =
     (let s = (if i < 0 then CHR ''-'' # show_nat (nat (- i)) else show_nat (nat i))
      in replicate (4 - length s) CHR '' '' @ s)"

definition fmt_02d :: "int \<Rightarrow> string" where
  "fmt_02d i =
     (if i < 0 then CHR ''-'' # replicate (1 - length (show_nat (nat (- i)))) CHR ''0''
                     @ show_nat (nat (- i))
      else replicate (2 - length (show_nat (nat i))) CHR ''0'' @ show_nat (nat i))"

text \<open>The text \<^verbatim>\<open>sprintf\<close> produces for \<^verbatim>\<open>"%4d%02d%02d %02d%02d%02d"\<close>.\<close>

definition timestamp_text :: "tm \<Rightarrow> string" where
  "timestamp_text t =
     fmt_4d (tm_year t + 1900) @ fmt_02d (tm_mon t) @ fmt_02d (tm_mday t) @ '' '' @
     fmt_02d (tm_hour t) @ fmt_02d (tm_min t) @ fmt_02d (tm_sec t)"

text \<open>
  \<^verbatim>\<open>sprintf\<close> stores the text and a terminating NUL from \<^verbatim>\<open>&timestamp[0]\<close> on. The struct is
  packed, so whatever does not fit the 16 bytes of \<open>timestamp\<close> lands in \<open>fw_pkg_name\<close>. (The
  text has at most 21 characters for every \<^verbatim>\<open>struct tm\<close> of \<^verbatim>\<open>gmtime\<close>; the model follows the
  store through these two fields.)
\<close>

definition set_timestamp :: "tm \<Rightarrow> tftf_hdr \<Rightarrow> tftf_hdr" where
  "set_timestamp t tftf_header =
     (let s = timestamp_text t @ [CHR 0x00];
          buf = timestamp tftf_header @ fw_pkg_name tftf_header;
          buf' = s @ drop (length s) buf
      in tftf_header\<lparr>timestamp := take TFTF_TIMESTAMP_LENGTH buf',
                      fw_pkg_name := take TFTF_FW_PKG_NAME_LENGTH (drop TFTF_TIMESTAMP_LENGTH buf')\<rparr>)"

subsection \<open>The header as the bytes write() sends\<close>

text \<open>
  \<^verbatim>\<open>write(tftf_fd, tftf_header, sizeof(*tftf_header))\<close> sends the packed struct as it lies in
  memory. Integers are laid out least significant byte first (the host order the comment on
  \<^verbatim>\<open>TFTF_SENTINEL\<close> speaks of).
\<close>

definition le32 :: "u32 \<Rightarrow> u8 list" where
  "le32 w = [ucast w, ucast (drop_bit 8 w), ucast (drop_bit 16 w), ucast (drop_bit 24 w)]"

definition section_bytes :: "tftf_section \<Rightarrow> u8 list" where
  "section_bytes s =
     le32 (section_length s) @ le32 (tftf_section.expanded_length s) @
     le32 (copy_offset s) @ le32 (section_type s)"

definition hdr_bytes :: "tftf_hdr \<Rightarrow> u8 list" where
  "hdr_bytes h =
     le32 (sentinel h) @ map of_char (timestamp h) @ map of_char (fw_pkg_name h) @
     le32 (load_length h) @ le32 (load_base h) @ le32 (tftf_hdr.expanded_length h) @
     le32 (start_location h) @ le32 (unipro_mfg_id h) @ le32 (unipro_product_id h) @
     le32 (ara_vendor_id h) @ le32 (ara_product_id h) @
     concat (map section_bytes (section_descriptors h)) @ padding h"

subsection \<open>write_tftf_file\<close>

text \<open>
  The \<^verbatim>\<open>for\<close> loop over the section cache. \<open>i\<close> is the common index of \<^verbatim>\<open>section\<close> and
  \<^verbatim>\<open>section_cache\<close>; the loop state is \<open>success\<close>, the header, \<open>tftf_copy_offset\<close> and the
  output file.
\<close>

function section_loop ::
  "os_env \<Rightarrow> section_info list \<Rightarrow> nat \<Rightarrow> nat \<Rightarrow> bool \<times> tftf_hdr \<times> u32 \<times> out_file
     \<Rightarrow> bool \<times> tftf_hdr \<times> u32 \<times> out_file" where
  "section_loop env section_cache num_sections i (success, tftf_header, tftf_copy_offset, tftf_fd) =
     (if success \<and> i < num_sections
      then
        (let off = (if offset (section_cache ! i) > 0 then offset (section_cache ! i)
                    else tftf_copy_offset);
             (success', sect, off', fd') =
               append_tftf_section env tftf_fd (filename (section_cache ! i))
                 (stype (section_cache ! i)) (section_descriptors tftf_header ! i) off;
             hdr1 = tftf_header\<lparr>section_descriptors := (section_descriptors tftf_header)[i := sect]\<rparr>;
             hdr2 = (if success'
                     then hdr1\<lparr>load_length := load_length hdr1 + section_length sect,
                               tftf_hdr.expanded_length := off'\<rparr>
                     else hdr1)
         in section_loop env section_cache num_sections (i + 1) (success', hdr2, off', fd'))
      else (success, tftf_header, tftf_copy_offset, tftf_fd))"
  by pat_completeness auto
termination
  by (relation "measure (\<lambda>(env, section_cache, num_sections, i, st). num_sections - i)") auto

declare section_loop.simps [simp del]

text \<open>
  \<open>write_tftf_file\<close> returns its result, the header (a global of the program) and the disk.
  When the output cannot be opened the C function returns \<^verbatim>\<open>PROGRAM_ERRORS\<close> from a function
  of type \<^verbatim>\<open>bool\<close>, which is \<open>true\<close>. The file is truncated when it is opened, and the
  file position starts behind the header.
\<close>

definition write_tftf_file ::
  "os_env \<Rightarrow> tftf_hdr \<Rightarrow> section_info list \<Rightarrow> nat \<Rightarrow> string \<Rightarrow> disk
     \<Rightarrow> bool \<times> tftf_hdr \<times> disk" where
  "write_tftf_file env tftf_header section_cache num_sections output_filename d =
     (if \<not> creat_ok env then (PROGRAM_ERRORS \<noteq> 0, tftf_header, d)
      else
        (let fd0 = \<lparr>content = [], pos = TFTF_HDR_LENGTH\<rparr>;
             (success, hdr1, off, fd1) =
               section_loop env section_cache num_sections 0 (True, tftf_header, 0, fd0)
         in if success
            then (let hdr2 = set_timestamp (now env) (hdr1\<lparr>sentinel := TFTF_SENTINEL\<rparr>);
                      bytes_written = hdr_write env;
                      fd2 = sys_write (fd1\<lparr>pos := 0\<rparr>) (hdr_bytes hdr2) bytes_written
                  in (bytes_written = int TFTF_HDR_LENGTH, hdr2,
                      d(output_filename \<mapsto> content fd2)))
            else (False, hdr1, d(output_filename \<mapsto> content fd1))))"

subsection \<open>validate_tftf_header\<close>

text \<open>
  The inner loop of \<^verbatim>\<open>validate_tftf_header\<close>: \<open>cmp\<close> runs from \<open>base + 1\<close> while it is
  below \<open>TFTF_MAX_SECTIONS\<close> and the entry is not the end-of-table marker. Each warning the
  C code prints is returned as the pair \<open>(base, cmp)\<close>.
\<close>

function validate_comp ::
  "tftf_section list \<Rightarrow> nat \<Rightarrow> u32 \<Rightarrow> u32 \<Rightarrow> nat \<Rightarrow> (nat \<times> nat) list" where
  "validate_comp sections base base_begin base_end cmp =
     (if cmp < TFTF_MAX_SECTIONS \<and>
         word_of_int TFTF_SECTION_TYPE_END_OF_DESCRIPTORS \<noteq> section_type (sections ! cmp)
      then
        (let comp_end = tftf_section.copy_offset (sections ! cmp) + SECTION_END (sections ! cmp)
         in (if \<not> (comp_end < base_begin \<or> tftf_section.copy_offset (sections ! cmp) > base_end)
             then [(base, cmp)] else [])
            @ validate_comp sections base base_begin base_end (cmp + 1))
      else [])"
  by pat_completeness auto
termination
  by (relation "measure (\<lambda>(sections, base, base_begin, base_end, cmp). TFTF_MAX_SECTIONS - cmp)")
     auto

declare validate_comp.simps [simp del]

text \<open>The outer loop: \<open>base\<close> runs over the table in the same way.\<close>

function validate_base :: "tftf_section list \<Rightarrow> nat \<Rightarrow> (nat \<times> nat) list" where
  "validate_base sections base =
     (if base < TFTF_MAX_SECTIONS \<and>
         word_of_int TFTF_SECTION_TYPE_END_OF_DESCRIPTORS \<noteq> section_type (sections ! base)
      then
        (let base_begin = tftf_section.copy_offset (sections ! base);
             base_end = SECTION_END (sections ! base)
         in validate_comp sections base base_begin base_end (base + 1)
            @ validate_base sections (base + 1))
      else [])"
  by pat_completeness auto
termination
  by (relation "measure (\<lambda>(sections, base). TFTF_MAX_SECTIONS - base)") auto

declare validate_base.simps [simp del]

text \<open>
  \<open>overlap_warnings\<close> is the list of warnings \<^verbatim>\<open>validate_tftf_header\<close> prints, and
  \<open>validate_tftf_header\<close> its result: \<open>valid\<close> stays true exactly when none is printed.
\<close>

definition overlap_warnings :: "tftf_hdr \<Rightarrow> (nat \<times> nat) list" where
  "overlap_warnings tftf_header = validate_base (section_descriptors tftf_header) 0"

definition validate_tftf_header :: "tftf_hdr \<Rightarrow> bool" where
  "validate_tftf_header tftf_header = (overlap_warnings tftf_header = [])"

subsection \<open>main\<close>

text \<open>
  What \<^verbatim>\<open>getopt_long\<close> returns, one constructor per entry of \<^verbatim>\<open>long_options\<close> with its
  \<^verbatim>\<open>optarg\<close>, and \<open>Opt_unknown\<close> for \<^verbatim>\<open>'?'\<close>. A numeric argument is given as what
  \<^verbatim>\<open>strtoul(input, &tail, 16)\<close> makes of it: the number, and whether \<^verbatim>\<open>*tail\<close> is the end
  of the string.
\<close>

datatype hex_arg = Hex_arg nat bool

datatype cmd_option =
    Opt_compress
  | Opt_verbose
  | Opt_manifest string
  | Opt_code string
  | Opt_data string
  | Opt_offset hex_arg
  | Opt_name string
  | Opt_load hex_arg
  | Opt_start hex_arg
  | Opt_unipro_mfg hex_arg
  | Opt_unipro_product hex_arg
  | Opt_ara_vendor hex_arg
  | Opt_ara_product hex_arg
  | Opt_out string
  | Opt_unknown

text \<open>
  \<open>get_num\<close> stores the number (cut to 32 bits) and succeeds when nothing follows it; the
  test \<^verbatim>\<open>errno != errno\<close> is always false.
\<close>

fun get_num :: "hex_arg \<Rightarrow> bool \<times> u32" where
  "get_num (Hex_arg n tail_empty) = (tail_empty, word_of_nat n)"

text \<open>
  \<open>cache_section\<close> returns \<open>success\<close>, the table and the index. Its \<open>success\<close> is
  initialised to \<open>true\<close> and never assigned again; the branch of a full table only prints
  \<^verbatim>\<open>"Error: too many sections"\<close>.
\<close>

definition cache_section ::
  "string \<Rightarrow> int \<Rightarrow> section_info list \<Rightarrow> int \<Rightarrow> int \<Rightarrow> bool \<times> section_info list \<times> int" where
  "cache_section section_filename sec_type section_table section_table_length section_index =
     (if section_index < section_table_length - 1
      then (True,
            section_table[nat (section_index + 1) :=
              (section_table ! nat (section_index + 1))
                \<lparr>filename := section_filename, stype := sec_type\<rparr>],
            section_index + 1)
      else (True, section_table, section_index))"

text \<open>The C function \<^verbatim>\<open>strncpy\<close>: at most \<open>n\<close> characters, the rest filled with NUL.\<close>

definition strncpy :: "string \<Rightarrow> nat \<Rightarrow> string" where
  "strncpy src n = take n src @ replicate (n - length src) (CHR 0x00)"

text \<open>The locals of \<^verbatim>\<open>main\<close> and the globals it fills while it reads the options.\<close>

record parser =
  section_index :: int
  allow_offset :: bool
  output_filename :: "string option"
  success :: bool
  section_cache :: "section_info list"
  tftf_header :: tftf_hdr
  compress :: bool
  verbose :: bool

text \<open>The \<^verbatim>\<open>switch\<close> on the option.\<close>

fun handle_option :: "parser \<Rightarrow> cmd_option \<Rightarrow> parser" where
  "handle_option p (Opt_manifest optarg) =
     (let (ok, tab, idx) = cache_section optarg TFTF_SECTION_TYPE_MANIFEST (section_cache p)
                             (int TFTF_MAX_SECTIONS) (section_index p)
      in p\<lparr>success := ok, section_cache := tab, section_index := idx\<rparr>)"
| "handle_option p (Opt_code optarg) =
     (let (ok, tab, idx) = cache_section optarg TFTF_SECTION_TYPE_RAW_CODE_BLOCK (section_cache p)
                             (int TFTF_MAX_SECTIONS) (section_index p)
      in p\<lparr>allow_offset := True, success := ok, section_cache := tab, section_index := idx\<rparr>)"
| "handle_option p (Opt_data optarg) =
     (let (ok, tab, idx) = cache_section optarg TFTF_SECTION_TYPE_RAW_DATA_BLOCK (section_cache p)
                             (int TFTF_MAX_SECTIONS) (section_index p)
      in p\<lparr>success := ok, section_cache := tab, section_index := idx\<rparr>)"
| "handle_option p (Opt_offset optarg) =
     (if allow_offset p
      then (let (ok, num) = get_num optarg
            in p\<lparr>success := ok,
                 section_cache := (section_cache p)[nat (section_index p) :=
                   (section_cache p ! nat (section_index p))\<lparr>offset := num\<rparr>],
                 allow_offset := False\<rparr>)
      else p\<lparr>allow_offset := False\<rparr>)"
| "handle_option p (Opt_name optarg) =
     p\<lparr>tftf_header := (tftf_header p)\<lparr>fw_pkg_name := strncpy optarg TFTF_FW_PKG_NAME_LENGTH\<rparr>\<rparr>"
| "handle_option p (Opt_load optarg) =
     (let (ok, num) = get_num optarg
      in p\<lparr>success := ok, tftf_header := (tftf_header p)\<lparr>load_base := num\<rparr>\<rparr>)"
| "handle_option p (Opt_start optarg) =
     (let (ok, num) = get_num optarg
      in p\<lparr>success := ok, tftf_header := (tftf_header p)\<lparr>start_location := num\<rparr>\<rparr>)"
| "handle_option p (Opt_unipro_mfg optarg) =
     (let (ok, num) = get_num optarg
      in p\<lparr>success := ok, tftf_header := (tftf_header p)\<lparr>unipro_mfg_id := num\<rparr>\<rparr>)"
| "handle_option p (Opt_unipro_product optarg) =
     (let (ok, num) = get_num optarg
      in p\<lparr>success := ok, tftf_header := (tftf_header p)\<lparr>unipro_product_id := num\<rparr>\<rparr>)"
| "handle_option p (Opt_ara_vendor optarg) =
     (let (ok, num) = get_num optarg
      in p\<lparr>success := ok, tftf_header := (tftf_header p)\<lparr>ara_vendor_id := num\<rparr>\<rparr>)"
| "handle_option p (Opt_ara_product optarg) =
     (let (ok, num) = get_num optarg
      in p\<lparr>success := ok, tftf_header := (tftf_header p)\<lparr>ara_product_id := num\<rparr>\<rparr>)"
| "handle_option p (Opt_out optarg) = p\<lparr>output_filename := Some optarg\<rparr>"
| "handle_option p Opt_verbose = p\<lparr>verbose := True\<rparr>"
| "handle_option p Opt_compress = p\<lparr>compress := True\<rparr>"
| "handle_option p Opt_unknown = p"

text \<open>
  One pass of the \<^verbatim>\<open>while (success)\<close> loop: an option other than code, data and offset
  first withdraws a pending \<open>allow_offset\<close>.
\<close>

definition parse_option :: "parser \<Rightarrow> cmd_option \<Rightarrow> parser" where
  "parse_option p opt =
     handle_option
       (if (case opt of Opt_code _ \<Rightarrow> False | Opt_data _ \<Rightarrow> False | Opt_offset _ \<Rightarrow> False
            | _ \<Rightarrow> True)
        then p\<lparr>allow_offset := False\<rparr> else p)
       opt"

fun parse_loop :: "parser \<Rightarrow> cmd_option list \<Rightarrow> parser" where
  "parse_loop p [] = p"
| "parse_loop p (opt # opts) = (if success p then parse_loop (parse_option p opt) opts else p)"

text \<open>
  The state before the first option: \<^verbatim>\<open>memset\<close> has cleared the header, and the static
  section cache is zero (a NULL \<open>filename\<close> is the empty string here; it is never opened).
\<close>

definition zero_section :: tftf_section where
  "zero_section = \<lparr>section_length = 0, expanded_length = 0, copy_offset = 0, section_type = 0\<rparr>"

definition zero_hdr :: tftf_hdr where
  "zero_hdr =
     \<lparr>sentinel = 0,
      timestamp = replicate TFTF_TIMESTAMP_LENGTH (CHR 0x00),
      fw_pkg_name = replicate TFTF_FW_PKG_NAME_LENGTH (CHR 0x00),
      load_length = 0, load_base = 0, expanded_length = 0, start_location = 0,
      unipro_mfg_id = 0, unipro_product_id = 0, ara_vendor_id = 0, ara_product_id = 0,
      section_descriptors = replicate TFTF_MAX_SECTIONS zero_section,
      padding = replicate TFTF_PADDING 0\<rparr>"

definition initial_parser :: parser where
  "initial_parser =
     \<lparr>section_index = - 1, allow_offset = False, output_filename = None, success = True,
      section_cache = replicate TFTF_MAX_SECTIONS \<lparr>filename = [], stype = 0, offset = 0\<rparr>,
      tftf_header = zero_hdr, compress = False, verbose = False\<rparr>"

text \<open>
  \<^verbatim>\<open>main\<close> after the options are read: the check of the arguments, \<open>write_tftf_file\<close>, the
  validation and \<^verbatim>\<open>unlink\<close>. The result is \<open>program_status\<close>, the header and the disk.
  \<open>program_status\<close> starts as 0, and the two argument checks do not change it.
\<close>

definition main_build :: "os_env \<Rightarrow> parser \<Rightarrow> disk \<Rightarrow> int \<times> tftf_hdr \<times> disk" where
  "main_build env p d =
     (if \<not> success p then (PROGRAM_ERRORS, tftf_header p, d)
      else
        (case output_filename p of
           None \<Rightarrow> (0, tftf_header p, d)
         | Some out \<Rightarrow>
             (if section_index p = - 1 then (0, tftf_header p, d)
              else
                (let (ok, hdr, d') =
                       write_tftf_file env (tftf_header p) (section_cache p)
                         (nat (section_index p + 1)) out d
                 in if ok
                    then ((if \<not> validate_tftf_header hdr then PROGRAM_WARNINGS else 0), hdr, d')
                    else (PROGRAM_ERRORS, hdr, d'(out := None))))))"

definition main :: "os_env \<Rightarrow> cmd_option list \<Rightarrow> disk \<Rightarrow> int \<times> tftf_hdr \<times> disk" where
  "main env argv d = main_build env (parse_loop initial_parser argv) d"

section \<open>Notions of the statements and proofs\<close>

text \<open>
  The number of bytes \<open>copy_loop\<close> counts depends on the section file alone: \<open>copy_total\<close>
  is the counter of the loop without the output file, and \<open>copied env name\<close> the value of
  \<^verbatim>\<open>bytes_written_total\<close> at the end of \<open>copy_file\<close> for the file \<open>name\<close>.
\<close>

fun copy_total :: "copy_step list \<Rightarrow> int \<Rightarrow> int" where
  "copy_total [] t = t"
| "copy_total (Read_eof # rest) t = t"
| "copy_total (Read_error # rest) t = t"
| "copy_total (Chunk buf w # rest) t =
     (if buf = [] then t else if w > 0 then copy_total rest (t + w) else t)"

definition copied :: "os_env \<Rightarrow> string \<Rightarrow> int" where
  "copied env name = (case sources env name of No_file \<Rightarrow> 0 | File steps \<Rightarrow> copy_total steps 0)"

text \<open>
  One successful pass of the loop of \<open>write_tftf_file\<close>: the offset the section is placed
  at, the descriptor and the header after the pass, and the offset left for the next
  section.
\<close>

definition start_offset :: "section_info \<Rightarrow> u32 \<Rightarrow> u32" where
  "start_offset c off = (if offset c > 0 then offset c else off)"

definition placed :: "os_env \<Rightarrow> section_info \<Rightarrow> u32 \<Rightarrow> tftf_section \<Rightarrow> tftf_section" where
  "placed env c off1 s =
     s\<lparr>section_length := word_of_int (copied env (filename c)),
       tftf_section.expanded_length := word_of_int (copied env (filename c)),
       section_type := word_of_int (stype c),
       copy_offset := off1\<rparr>"

definition place_hdr :: "os_env \<Rightarrow> section_info list \<Rightarrow> nat \<Rightarrow> tftf_hdr \<Rightarrow> u32 \<Rightarrow> tftf_hdr" where
  "place_hdr env cache i h off =
     h\<lparr>section_descriptors :=
         (section_descriptors h)
           [i := placed env (cache ! i) (start_offset (cache ! i) off) (section_descriptors h ! i)],
       load_length := load_length h + word_of_int (copied env (filename (cache ! i))),
       tftf_hdr.expanded_length :=
         start_offset (cache ! i) off + word_of_int (copied env (filename (cache ! i)))\<rparr>"

definition next_offset :: "os_env \<Rightarrow> section_info \<Rightarrow> u32 \<Rightarrow> u32" where
  "next_offset env c off = start_offset c off + word_of_int (copied env (filename c))"

text \<open>
  A small world for the concrete runs below: \<^verbatim>\<open>a.bin\<close> holds four bytes, \<^verbatim>\<open>empty.bin\<close>
  none, \<^verbatim>\<open>bad.bin\<close> gives four bytes and then a read error, no other file can be opened.
  The output can be created and the header is written in full. The time is
  2015-03-04 05:06:07 UTC (\<^verbatim>\<open>tm_mon\<close> counts the months since January).
\<close>

definition tm_2015_03_04 :: tm where
  "tm_2015_03_04 =
     \<lparr>tm_year = 115, tm_mon = 2, tm_mday = 4, tm_hour = 5, tm_min = 6, tm_sec = 7\<rparr>"

definition demo_sources :: "string \<Rightarrow> source" where
  "demo_sources name =
     (if name = ''a.bin'' then File [Chunk [1, 2, 3, 4] 4, Read_eof]
      else if name = ''empty.bin'' then File [Read_eof]
      else if name = ''bad.bin'' then File [Chunk [1, 2, 3, 4] 4, Read_error]
      else No_file)"

definition demo_env :: os_env where
  "demo_env = \<lparr>sources = demo_sources, creat_ok = True, hdr_write = 512, now = tm_2015_03_04\<rparr>"

text \<open>Two sections without offsets: \<^verbatim>\<open>--code a.bin --data a.bin --out o.tftf\<close>.\<close>

definition argv_two :: "cmd_option list" where
  "argv_two = [Opt_code ''a.bin'', Opt_data ''a.bin'', Opt_out ''o.tftf'']"

text \<open>
  The layout extent in the words of the specification: the greatest
  \<open>copy_offset + expanded_length\<close> over the placed sections, as a natural number.
\<close>

definition section_extent :: "tftf_section \<Rightarrow> nat" where
  "section_extent s = unat (copy_offset s) + unat (tftf_section.expanded_length s)"

primrec layout_extent :: "tftf_section list \<Rightarrow> nat" where
  "layout_extent [] = 0"
| "layout_extent (s # ss) = max (section_extent s) (layout_extent ss)"

text \<open>
  Two sections, the second placed below the first:
  \<^verbatim>\<open>--code a.bin --offset 10 --code a.bin --offset 8 --out o.tftf\<close> (offsets are hexadecimal).
\<close>

definition argv_backwards :: "cmd_option list" where
  "argv_backwards =
     [Opt_code ''a.bin'', Opt_offset (Hex_arg 0x10 True),
      Opt_code ''a.bin'', Opt_offset (Hex_arg 0x8 True), Opt_out ''o.tftf'']"

text \<open>
  \<open>build_started p out\<close>: the options were accepted, an output file \<open>out\<close> and at least
  one section were named, so that \<^verbatim>\<open>main\<close> calls \<open>write_tftf_file\<close>.
\<close>

definition build_started :: "parser \<Rightarrow> string \<Rightarrow> bool" where
  "build_started p out =
     (success p \<and> output_filename p = Some out \<and> section_index p \<noteq> - 1)"

text \<open>
  A section file of length 0: the first \<^verbatim>\<open>read\<close> returns 0.
\<close>

fun empty_input :: "source \<Rightarrow> bool" where
  "empty_input (File []) = True"
| "empty_input (File (Read_eof # rest)) = True"
| "empty_input (File (Chunk buf w # rest)) = (buf = [])"
| "empty_input (File (Read_error # rest)) = False"
| "empty_input No_file = False"

text \<open>
  \<^verbatim>\<open>--code missing.bin --out o.tftf\<close> (the section file cannot be opened), a disk that
  already holds a file \<^verbatim>\<open>o.tftf\<close>, and \<^verbatim>\<open>--code a.bin --data empty.bin --out o.tftf\<close>.
\<close>

definition argv_missing :: "cmd_option list" where
  "argv_missing = [Opt_code ''missing.bin'', Opt_out ''o.tftf'']"

definition disk_with_output :: disk where
  "disk_with_output = Map.empty(''o.tftf'' \<mapsto> [1, 2, 3])"

definition argv_empty :: "cmd_option list" where
  "argv_empty = [Opt_code ''a.bin'', Opt_data ''empty.bin'', Opt_out ''o.tftf'']"

text \<open>
  Numbers of two and of four decimal digits, padded with zeros; the ranges of the fields
  of a \<^verbatim>\<open>struct tm\<close> that \<^verbatim>\<open>gmtime\<close> returns, for the years 1000 to 9999; and the
  timestamp as the specification words it: \<^verbatim>\<open>YYYYMMDD HHMMSS\<close> with the calendar month
  (\<^verbatim>\<open>tm_mon + 1\<close>) and no NUL inside the field.
\<close>

definition dec2 :: "nat \<Rightarrow> string" where
  "dec2 n = [digit_char (n div 10), digit_char (n mod 10)]"

definition dec4 :: "nat \<Rightarrow> string" where
  "dec4 n = [digit_char (n div 1000), digit_char (n div 100 mod 10),
             digit_char (n div 10 mod 10), digit_char (n mod 10)]"

definition gmtime_range :: "tm \<Rightarrow> bool" where
  "gmtime_range t =
     (1000 \<le> tm_year t + 1900 \<and> tm_year t + 1900 \<le> 9999 \<and>
      0 \<le> tm_mon t \<and> tm_mon t \<le> 11 \<and> 1 \<le> tm_mday t \<and> tm_mday t \<le> 31 \<and>
      0 \<le> tm_hour t \<and> tm_hour t \<le> 23 \<and> 0 \<le> tm_min t \<and> tm_min t \<le> 59 \<and>
      0 \<le> tm_sec t \<and> tm_sec t \<le> 60)"

definition claimed_timestamp :: "tm \<Rightarrow> string \<Rightarrow> bool" where
  "claimed_timestamp t ts =
     (length ts = TFTF_TIMESTAMP_LENGTH \<and>
      take 15 ts =
        dec4 (nat (tm_year t + 1900)) @ dec2 (nat (tm_mon t + 1)) @ dec2 (nat (tm_mday t)) @
        '' '' @ dec2 (nat (tm_hour t)) @ dec2 (nat (tm_min t)) @ dec2 (nat (tm_sec t)) \<and>
      CHR 0x00 \<notin> set ts)"

text \<open>
  The overlap test in the words of the specification: with the inclusive ranges
  \<open>[copy_offset, copy_offset + expanded_length - 1]\<close>, the pair \<open>(A, B)\<close> overlaps iff
  not (\<open>B.end < A.start\<close> or \<open>B.start > A.end\<close>).
\<close>

definition spec_overlaps :: "tftf_section \<Rightarrow> tftf_section \<Rightarrow> bool" where
  "spec_overlaps A B = (\<not> (SECTION_END B < copy_offset A \<or> copy_offset B > SECTION_END A))"

text \<open>
  A header whose descriptor \<open>n\<close> is the end-of-table marker, as \<^verbatim>\<open>tftf.h\<close> defines the
  format (the program itself never stores one).
\<close>

definition with_end_marker :: "nat \<Rightarrow> tftf_hdr \<Rightarrow> tftf_hdr" where
  "with_end_marker n h =
     h\<lparr>section_descriptors := (section_descriptors h)
         [n := zero_section\<lparr>section_type := word_of_int TFTF_SECTION_TYPE_END_OF_DESCRIPTORS\<rparr>]\<rparr>"

text \<open>
  The layout of the specification's example: A at 0 to 99, B at 50 to 149, C at 200 to
  299, in a table that ends with the marker.
\<close>

definition three_section_hdr :: tftf_hdr where
  "three_section_hdr =
     with_end_marker 3 (zero_hdr\<lparr>section_descriptors :=
       [\<lparr>section_length = 100, expanded_length = 100, copy_offset = 0, section_type = 1\<rparr>,
        \<lparr>section_length = 100, expanded_length = 100, copy_offset = 50, section_type = 1\<rparr>,
        \<lparr>section_length = 100, expanded_length = 100, copy_offset = 200, section_type = 1\<rparr>]
       @ replicate 22 zero_section\<rparr>)"

text \<open>
  \<^verbatim>\<open>--code a.bin --out o.tftf\<close>, \<^verbatim>\<open>--code bad.bin --out o.tftf\<close>, and 26 times
  \<^verbatim>\<open>--data a.bin\<close> followed by \<^verbatim>\<open>--out o.tftf\<close>.
\<close>

definition argv_one :: "cmd_option list" where
  "argv_one = [Opt_code ''a.bin'', Opt_out ''o.tftf'']"

definition argv_bad :: "cmd_option list" where
  "argv_bad = [Opt_code ''bad.bin'', Opt_out ''o.tftf'']"

definition argv_26 :: "cmd_option list" where
  "argv_26 = replicate 26 (Opt_data ''a.bin'') @ [Opt_out ''o.tftf'']"

text \<open>
  The test \<^verbatim>\<open>validate_tftf_header\<close> applies to a pair, with \<open>comp_end\<close> as the C code
  computes it, and "this descriptor is not the end-of-table marker".
\<close>

definition code_overlaps :: "tftf_section \<Rightarrow> tftf_section \<Rightarrow> bool" where
  "code_overlaps A B =
     (\<not> (copy_offset B + SECTION_END B < copy_offset A \<or> copy_offset B > SECTION_END A))"

definition not_end :: "tftf_section \<Rightarrow> bool" where
  "not_end s = (word_of_int TFTF_SECTION_TYPE_END_OF_DESCRIPTORS \<noteq> section_type s)"

text \<open>
  What holds of the parser state after any number of options: the section cache has
  \<open>TFTF_MAX_SECTIONS\<close> entries, \<open>section_index\<close> stays within it, the descriptors of the
  header are still zero, the character arrays keep their sizes, and every cached section
  is a manifest, a code block or a data block.
\<close>

definition parse_inv :: "parser \<Rightarrow> bool" where
  "parse_inv p =
     (length (section_cache p) = TFTF_MAX_SECTIONS \<and>
      - 1 \<le> section_index p \<and> section_index p < int TFTF_MAX_SECTIONS \<and>
      section_descriptors (tftf_header p) = replicate TFTF_MAX_SECTIONS zero_section \<and>
      length (timestamp (tftf_header p)) = TFTF_TIMESTAMP_LENGTH \<and>
      length (fw_pkg_name (tftf_header p)) = TFTF_FW_PKG_NAME_LENGTH \<and>
      padding (tftf_header p) = replicate TFTF_PADDING 0 \<and>
      (\<forall>k. int k \<le> section_index p \<longrightarrow>
         stype (section_cache p ! k) = TFTF_SECTION_TYPE_MANIFEST \<or>
         stype (section_cache p ! k) = TFTF_SECTION_TYPE_RAW_CODE_BLOCK \<or>
         stype (section_cache p ! k) = TFTF_SECTION_TYPE_RAW_DATA_BLOCK))"

text \<open>
  \<open>numbers_ok opt\<close>: the numeric argument of the option, if it has one, is a well-formed
  number (\<^verbatim>\<open>strtoul\<close> consumed the whole string).
\<close>

fun numbers_ok :: "cmd_option \<Rightarrow> bool" where
  "numbers_ok (Opt_offset (Hex_arg n tail_empty)) = tail_empty"
| "numbers_ok (Opt_load (Hex_arg n tail_empty)) = tail_empty"
| "numbers_ok (Opt_start (Hex_arg n tail_empty)) = tail_empty"
| "numbers_ok (Opt_unipro_mfg (Hex_arg n tail_empty)) = tail_empty"
| "numbers_ok (Opt_unipro_product (Hex_arg n tail_empty)) = tail_empty"
| "numbers_ok (Opt_ara_vendor (Hex_arg n tail_empty)) = tail_empty"
| "numbers_ok (Opt_ara_product (Hex_arg n tail_empty)) = tail_empty"
| "numbers_ok opt = True"

section \<open>Properties\<close>

subsection \<open>copy_file and the loop of write_tftf_file\<close>

lemma fst_copy_loop: "fst (copy_loop steps t fd) = copy_total steps t"
  by (induction steps t fd rule: copy_loop.induct) auto

lemma copy_total_mono: "t \<le> copy_total steps t"
  by (induction steps t rule: copy_total.induct) auto

lemma copy_loop_total: "copy_loop steps t fd = (x, fd') \<Longrightarrow> x = copy_total steps t"
  using fst_copy_loop [of steps t fd] by simp

lemma copy_file_status:
  "fst (copy_file env name fd s) = (if 0 < copied env name then 0 else 2)"
  by (auto simp: copy_file_def copied_def split: source.splits prod.splits dest: copy_loop_total)

lemma copy_file_section:
  "fst (snd (copy_file env name fd s)) =
     (if 0 < copied env name
      then s\<lparr>section_length := word_of_int (copied env name),
             tftf_section.expanded_length := word_of_int (copied env name)\<rparr>
      else s)"
  by (auto simp: copy_file_def copied_def split: source.splits prod.splits dest: copy_loop_total)

lemma append_tftf_section_eq:
  "append_tftf_section env fd (filename c) (stype c) s off =
     (if 0 < copied env (filename c)
      then (True, placed env c off s, off + word_of_int (copied env (filename c)),
            snd (snd (copy_file env (filename c) fd s)))
      else (False, s, off, snd (snd (copy_file env (filename c) fd s))))"
proof -
  obtain st s1 fd1 where cf: "copy_file env (filename c) fd s = (st, s1, fd1)"
    by (cases "copy_file env (filename c) fd s") auto
  have st: "st = (if 0 < copied env (filename c) then 0 else 2)"
    using copy_file_status [of env "filename c" fd s] cf by simp
  have s1: "s1 = (if 0 < copied env (filename c)
      then s\<lparr>section_length := word_of_int (copied env (filename c)),
             tftf_section.expanded_length := word_of_int (copied env (filename c))\<rparr>
      else s)"
    using copy_file_section [of env "filename c" fd s] cf by simp
  show ?thesis
    unfolding append_tftf_section_def cf using st s1 by (simp add: placed_def)
qed

lemma section_loop_stop:
  "\<not> (ok \<and> i < num) \<Longrightarrow> section_loop env cache num i (ok, h, off, fd) = (ok, h, off, fd)"
  by (subst section_loop.simps) auto

lemma section_loop_fail:
  "i < num \<Longrightarrow> \<not> 0 < copied env (filename (cache ! i)) \<Longrightarrow>
   section_loop env cache num i (True, h, off, fd) =
     (False, h, start_offset (cache ! i) off,
      snd (snd (copy_file env (filename (cache ! i)) fd (section_descriptors h ! i))))"
  by (subst section_loop.simps)
     (simp add: append_tftf_section_eq Let_def start_offset_def section_loop_stop)

lemma section_loop_step:
  "i < num \<Longrightarrow> 0 < copied env (filename (cache ! i)) \<Longrightarrow>
   section_loop env cache num i (True, h, off, fd) =
     section_loop env cache num (Suc i)
       (True, place_hdr env cache i h off, next_offset env (cache ! i) off,
        snd (snd (copy_file env (filename (cache ! i)) fd (section_descriptors h ! i))))"
  by (subst section_loop.simps)
     (simp add: append_tftf_section_eq Let_def start_offset_def place_hdr_def placed_def
        next_offset_def)


lemma section_loop_success_iff:
  "i \<le> num \<Longrightarrow>
   fst (section_loop env cache num i (True, h, off, fd)) \<longleftrightarrow>
     (\<forall>k. i \<le> k \<and> k < num \<longrightarrow> 0 < copied env (filename (cache ! k)))"
proof (induction "num - i" arbitrary: i h off fd)
  case 0
  then show ?case by (simp add: section_loop_stop)
next
  case (Suc n)
  then have lt: "i < num" and n: "n = num - Suc i" by simp_all
  show ?case
  proof (cases "0 < copied env (filename (cache ! i))")
    case True
    have "(\<forall>k. i \<le> k \<and> k < num \<longrightarrow> 0 < copied env (filename (cache ! k))) \<longleftrightarrow>
          (\<forall>k. Suc i \<le> k \<and> k < num \<longrightarrow> 0 < copied env (filename (cache ! k)))"
    proof (intro iffI allI impI)
      fix k
      assume a: "\<forall>k. i \<le> k \<and> k < num \<longrightarrow> 0 < copied env (filename (cache ! k))"
        and "Suc i \<le> k \<and> k < num"
      then show "0 < copied env (filename (cache ! k))" by simp
    next
      fix k
      assume a: "\<forall>k. Suc i \<le> k \<and> k < num \<longrightarrow> 0 < copied env (filename (cache ! k))"
        and b: "i \<le> k \<and> k < num"
      show "0 < copied env (filename (cache ! k))"
      proof (cases "k = i")
        case True
        then show ?thesis using \<open>0 < copied env (filename (cache ! i))\<close> by simp
      next
        case False
        then show ?thesis using a b by simp
      qed
    qed
    moreover have "Suc i \<le> num" using lt by simp
    ultimately show ?thesis
      unfolding section_loop_step [OF lt True] using Suc.hyps(1) [OF n] by simp
  next
    case False
    have "\<not> (\<forall>k. i \<le> k \<and> k < num \<longrightarrow> 0 < copied env (filename (cache ! k)))"
      using False lt by auto
    then show ?thesis unfolding section_loop_fail [OF lt False] by simp
  qed
qed

lemma section_loop_rule:
  assumes res: "section_loop env cache num i (True, h, off, fd) = (True, h', off', fd')"
    and le: "i \<le> num"
    and init: "I i h off"
    and step: "\<And>j g x. i \<le> j \<Longrightarrow> j < num \<Longrightarrow> I j g x \<Longrightarrow> 0 < copied env (filename (cache ! j))
                 \<Longrightarrow> I (Suc j) (place_hdr env cache j g x) (next_offset env (cache ! j) x)"
  shows "I num h' off'"
  using res le init step
proof (induction "num - i" arbitrary: i h off fd)
  case 0
  then show ?case by (simp add: section_loop_stop)
next
  case (Suc n)
  then have lt: "i < num" and n: "n = num - Suc i" by simp_all
  show ?case
  proof (cases "0 < copied env (filename (cache ! i))")
    case True
    have r: "section_loop env cache num (Suc i)
               (True, place_hdr env cache i h off, next_offset env (cache ! i) off,
                snd (snd (copy_file env (filename (cache ! i)) fd (section_descriptors h ! i))))
             = (True, h', off', fd')"
      using Suc.prems(1) unfolding section_loop_step [OF lt True] .
    have i1: "I (Suc i) (place_hdr env cache i h off) (next_offset env (cache ! i) off)"
      using Suc.prems(4) [of i h off] lt True Suc.prems(3) by simp
    show ?thesis
    proof (rule Suc.hyps(1) [OF n r _ i1])
      show "Suc i \<le> num" using lt by simp
    next
      fix j g x
      assume "Suc i \<le> j" "j < num" "I j g x" "0 < copied env (filename (cache ! j))"
      then show "I (Suc j) (place_hdr env cache j g x) (next_offset env (cache ! j) x)"
        using Suc.prems(4) [of j g x] by simp
    qed
  next
    case False
    show ?thesis using Suc.prems(1) unfolding section_loop_fail [OF lt False] by simp
  qed
qed

lemma set_timestamp_descriptors:
  "section_descriptors (set_timestamp t h) = section_descriptors h"
  by (simp add: set_timestamp_def Let_def)

lemma set_timestamp_expanded_length:
  "tftf_hdr.expanded_length (set_timestamp t h) = tftf_hdr.expanded_length h"
  by (simp add: set_timestamp_def Let_def)

lemma write_tftf_file_no_creat:
  "\<not> creat_ok env \<Longrightarrow> write_tftf_file env h cache num out d = (True, h, d)"
  by (simp add: write_tftf_file_def PROGRAM_ERRORS_def)

lemma write_tftf_file_True:
  assumes "creat_ok env" and "write_tftf_file env h cache num out d = (True, h', d')"
  obtains h1 off fd1 where
    "section_loop env cache num 0 (True, h, 0, \<lparr>content = [], pos = TFTF_HDR_LENGTH\<rparr>)
       = (True, h1, off, fd1)"
    and "h' = set_timestamp (now env) (h1\<lparr>sentinel := TFTF_SENTINEL\<rparr>)"
    and "hdr_write env = int TFTF_HDR_LENGTH"
  using assms
  by (auto simp: write_tftf_file_def Let_def split: prod.splits if_splits)

lemma write_tftf_file_False:
  assumes "write_tftf_file env h cache num out d = (False, h', d')"
  shows "creat_ok env \<and> (\<exists>c. d' = d(out \<mapsto> c))"
  using assms
  by (auto simp: write_tftf_file_def Let_def PROGRAM_ERRORS_def split: prod.splits if_splits)

lemma section_loop_contiguous:
  assumes res: "section_loop env cache num 0 (True, h, 0, fd) = (True, h', off', fd')"
    and len: "num \<le> length (section_descriptors h)"
    and zero: "\<forall>k<num. offset (cache ! k) = 0"
  shows "(0 < num \<longrightarrow> copy_offset (section_descriptors h' ! 0) = 0) \<and>
         (\<forall>k. Suc k < num \<longrightarrow>
            copy_offset (section_descriptors h' ! k) +
            tftf_section.expanded_length (section_descriptors h' ! k) =
            copy_offset (section_descriptors h' ! Suc k))"
proof -
  define I where "I = (\<lambda>j (g::tftf_hdr) (x::u32).
     length (section_descriptors g) = length (section_descriptors h) \<and>
     (0 < j \<longrightarrow> copy_offset (section_descriptors g ! 0) = 0) \<and>
     (\<forall>k. Suc k < j \<longrightarrow>
        copy_offset (section_descriptors g ! k) +
        tftf_section.expanded_length (section_descriptors g ! k) =
        copy_offset (section_descriptors g ! Suc k)) \<and>
     x = (if j = 0 then 0
          else copy_offset (section_descriptors g ! (j - 1)) +
               tftf_section.expanded_length (section_descriptors g ! (j - 1))))"
  have "I num h' off'"
  proof (rule section_loop_rule [OF res])
    show "0 \<le> num" by simp
    show "I 0 h 0" by (simp add: I_def)
  next
    fix j g x
    assume j: "0 \<le> j" "j < num" and inv: "I j g x"
    have so: "start_offset (cache ! j) x = x"
      using zero j by (simp add: start_offset_def)
    have lj: "j < length (section_descriptors g)"
      using inv j len by (simp add: I_def)
    show "I (Suc j) (place_hdr env cache j g x) (next_offset env (cache ! j) x)"
      unfolding I_def place_hdr_def next_offset_def so
      using inv lj
      by (auto simp: I_def placed_def nth_list_update less_Suc_eq)
  qed
  then show ?thesis by (simp add: I_def)
qed

subsection \<open>Default placement\<close>

text \<open>
  Claim C8. When \<open>write_tftf_file\<close> succeeds on a section cache none of whose first
  \<open>num_sections\<close> entries carries an explicit offset, the first section is placed at
  offset 0 and every section starts where its predecessor ends:
  \<open>section[k].copy_offset + section[k].expanded_length = section[k+1].copy_offset\<close>, the
  sum taken in 32-bit arithmetic as the C expression is.
\<close>

theorem default_placement_contiguous:
  assumes "write_tftf_file env h cache num out d = (True, h', d')"
    and "creat_ok env"
    and "num \<le> length (section_descriptors h)"
    and "\<forall>k<num. offset (cache ! k) = 0"
  shows "(0 < num \<longrightarrow> copy_offset (section_descriptors h' ! 0) = 0) \<and>
         (\<forall>k. Suc k < num \<longrightarrow>
            copy_offset (section_descriptors h' ! k) +
            tftf_section.expanded_length (section_descriptors h' ! k) =
            copy_offset (section_descriptors h' ! Suc k))"
proof -
  obtain h1 off fd1 where
    loop: "section_loop env cache num 0 (True, h, 0, \<lparr>content = [], pos = TFTF_HDR_LENGTH\<rparr>)
             = (True, h1, off, fd1)"
    and h': "h' = set_timestamp (now env) (h1\<lparr>sentinel := TFTF_SENTINEL\<rparr>)"
    using write_tftf_file_True [OF assms(2) assms(1)] by blast
  have "section_descriptors h' = section_descriptors h1"
    by (simp add: h' set_timestamp_descriptors)
  then show ?thesis
    using section_loop_contiguous [OF loop assms(3) assms(4)] by simp
qed

theorem default_placement_contiguous_witness:
  "fst (write_tftf_file demo_env zero_hdr (section_cache (parse_loop initial_parser argv_two)) 2
          ''o.tftf'' Map.empty) \<and>
   copy_offset (section_descriptors (fst (snd
     (write_tftf_file demo_env zero_hdr (section_cache (parse_loop initial_parser argv_two)) 2
        ''o.tftf'' Map.empty))) ! 0) = 0 \<and>
   copy_offset (section_descriptors (fst (snd
     (write_tftf_file demo_env zero_hdr (section_cache (parse_loop initial_parser argv_two)) 2
        ''o.tftf'' Map.empty))) ! 0) +
   tftf_section.expanded_length (section_descriptors (fst (snd
     (write_tftf_file demo_env zero_hdr (section_cache (parse_loop initial_parser argv_two)) 2
        ''o.tftf'' Map.empty))) ! 0) =
   copy_offset (section_descriptors (fst (snd
     (write_tftf_file demo_env zero_hdr (section_cache (parse_loop initial_parser argv_two)) 2
        ''o.tftf'' Map.empty))) ! Suc 0)"
proof -
  let ?r = "write_tftf_file demo_env zero_hdr
              (section_cache (parse_loop initial_parser argv_two)) 2 ''o.tftf'' Map.empty"
  have ok: "fst ?r"
    by code_simp
  have res: "?r = (True, fst (snd ?r), snd (snd ?r))"
    using ok by (simp add: prod_eq_iff)
  have creat: "creat_ok demo_env"
    by (simp add: demo_env_def)
  have len: "2 \<le> length (section_descriptors zero_hdr)"
    by (simp add: zero_hdr_def TFTF_MAX_SECTIONS_def)
  have zero: "\<forall>k<2. offset (section_cache (parse_loop initial_parser argv_two) ! k) = 0"
    by code_simp
  show ?thesis
    using default_placement_contiguous [OF res creat len zero] ok by auto
qed

subsection \<open>The header's expanded length\<close>

lemma section_loop_cursor:
  assumes res: "section_loop env cache num 0 (True, h, 0, fd) = (True, h', off', fd')"
    and len: "num \<le> length (section_descriptors h)"
    and pos: "0 < num"
  shows "tftf_hdr.expanded_length h' =
           copy_offset (section_descriptors h' ! (num - 1)) +
           tftf_section.expanded_length (section_descriptors h' ! (num - 1))"
proof -
  define I where "I = (\<lambda>j (g::tftf_hdr) (x::u32).
     length (section_descriptors g) = length (section_descriptors h) \<and>
     (0 < j \<longrightarrow> tftf_hdr.expanded_length g =
        copy_offset (section_descriptors g ! (j - 1)) +
        tftf_section.expanded_length (section_descriptors g ! (j - 1))))"
  have "I num h' off'"
  proof (rule section_loop_rule [OF res])
    show "0 \<le> num" by simp
    show "I 0 h 0" by (simp add: I_def)
  next
    fix j g x
    assume j: "0 \<le> j" "j < num" and inv: "I j g x"
    have lj: "j < length (section_descriptors g)"
      using inv j len by (simp add: I_def)
    show "I (Suc j) (place_hdr env cache j g x) (next_offset env (cache ! j) x)"
      unfolding I_def place_hdr_def next_offset_def
      using inv lj by (simp add: I_def placed_def)
  qed
  then show ?thesis using pos by (simp add: I_def)
qed

lemma section_loop_untouched:
  assumes res: "section_loop env cache num 0 (True, h, 0, fd) = (True, h', off', fd')"
  shows "length (section_descriptors h') = length (section_descriptors h) \<and>
         (\<forall>k\<ge>num. section_descriptors h' ! k = section_descriptors h ! k)"
proof -
  define I where "I = (\<lambda>j (g::tftf_hdr) (x::u32).
     length (section_descriptors g) = length (section_descriptors h) \<and>
     (\<forall>k\<ge>j. section_descriptors g ! k = section_descriptors h ! k))"
  have "I num h' off'"
  proof (rule section_loop_rule [OF res])
    show "0 \<le> num" by simp
    show "I 0 h 0" by (simp add: I_def)
  next
    fix j g x
    assume inv: "I j g x"
    show "I (Suc j) (place_hdr env cache j g x) (next_offset env (cache ! j) x)"
      unfolding I_def place_hdr_def
      using inv by (simp add: I_def)
  qed
  then show ?thesis by (simp add: I_def)
qed

lemma layout_extent_ge: "s \<in> set ss \<Longrightarrow> section_extent s \<le> layout_extent ss"
  by (induction ss) auto

lemma layout_extent_le:
  "\<forall>s \<in> set ss. section_extent s \<le> m \<Longrightarrow> layout_extent ss \<le> m"
  by (induction ss) auto

lemma layout_extent_last:
  assumes ne: "ss \<noteq> []"
    and chain: "\<forall>k. Suc k < length ss \<longrightarrow> section_extent (ss ! k) \<le> section_extent (ss ! Suc k)"
  shows "layout_extent ss = section_extent (last ss)"
proof -
  have srt: "sorted (map section_extent ss)"
    using chain by (simp add: sorted_iff_nth_Suc)
  have "\<forall>s \<in> set ss. section_extent s \<le> section_extent (last ss)"
  proof
    fix s assume "s \<in> set ss"
    then obtain k where k: "k < length ss" "s = ss ! k" by (auto simp: in_set_conv_nth)
    have "map section_extent ss ! k \<le> map section_extent ss ! (length ss - 1)"
      using srt k ne by (intro sorted_nth_mono) auto
    then show "section_extent s \<le> section_extent (last ss)"
      using k ne by (simp add: last_conv_nth)
  qed
  then have "layout_extent ss \<le> section_extent (last ss)"
    by (rule layout_extent_le)
  moreover have "section_extent (last ss) \<le> layout_extent ss"
    using ne by (intro layout_extent_ge) simp
  ultimately show ?thesis by simp
qed

text \<open>
  Claim C3, as the code has it. After a successful \<open>write_tftf_file\<close> of at least one
  section the header's \<open>expanded_length\<close> is the copy offset left after the last section,
  that is the last descriptor's \<open>copy_offset + expanded_length\<close> in 32-bit arithmetic. It
  is the layout extent (the greatest \<open>copy_offset + expanded_length\<close> of the placed
  sections) whenever no section is placed below the end of its predecessor and the end of
  the last section fits 32 bits.
\<close>

theorem expanded_length_is_cursor:
  assumes "write_tftf_file env h cache num out d = (True, h', d')"
    and "creat_ok env"
    and "num \<le> length (section_descriptors h)"
    and "0 < num"
  shows "tftf_hdr.expanded_length h' =
           copy_offset (section_descriptors h' ! (num - 1)) +
           tftf_section.expanded_length (section_descriptors h' ! (num - 1)) \<and>
         ((\<forall>k. Suc k < num \<longrightarrow>
            section_extent (section_descriptors h' ! k) \<le>
            unat (copy_offset (section_descriptors h' ! Suc k))) \<and>
          section_extent (section_descriptors h' ! (num - 1)) < 2 ^ 32 \<longrightarrow>
          unat (tftf_hdr.expanded_length h') = layout_extent (take num (section_descriptors h')))"
proof -
  obtain h1 off fd1 where
    loop: "section_loop env cache num 0 (True, h, 0, \<lparr>content = [], pos = TFTF_HDR_LENGTH\<rparr>)
             = (True, h1, off, fd1)"
    and h': "h' = set_timestamp (now env) (h1\<lparr>sentinel := TFTF_SENTINEL\<rparr>)"
    using write_tftf_file_True [OF assms(2) assms(1)] by blast
  have d: "section_descriptors h' = section_descriptors h1"
    and e: "tftf_hdr.expanded_length h' = tftf_hdr.expanded_length h1"
    by (simp_all add: h' set_timestamp_descriptors set_timestamp_expanded_length)
  have cur: "tftf_hdr.expanded_length h' =
           copy_offset (section_descriptors h' ! (num - 1)) +
           tftf_section.expanded_length (section_descriptors h' ! (num - 1))"
    using section_loop_cursor [OF loop assms(3) assms(4)] d e by simp
  have ext: "unat (tftf_hdr.expanded_length h') = layout_extent (take num (section_descriptors h'))"
    if a: "(\<forall>k. Suc k < num \<longrightarrow>
            section_extent (section_descriptors h' ! k) \<le>
            unat (copy_offset (section_descriptors h' ! Suc k))) \<and>
         section_extent (section_descriptors h' ! (num - 1)) < 2 ^ 32"
  proof -
    let ?ss = "take num (section_descriptors h')"
    have len1: "length (section_descriptors h1) = length (section_descriptors h)"
      using section_loop_untouched [OF loop] by simp
    have ln: "length ?ss = num" using assms(3) len1 d by simp
    have ne: "?ss \<noteq> []" using ln assms(4) by auto
    have chain: "\<forall>k. Suc k < length ?ss \<longrightarrow> section_extent (?ss ! k) \<le> section_extent (?ss ! Suc k)"
      using a ln by (auto simp: section_extent_def intro: le_trans)
    have "layout_extent ?ss = section_extent (last ?ss)"
      using layout_extent_last [OF ne chain] .
    also have "last ?ss = section_descriptors h' ! (num - 1)"
      using ne ln assms(4) by (simp add: last_conv_nth)
    also have "section_extent (section_descriptors h' ! (num - 1)) = unat (tftf_hdr.expanded_length h')"
      using a unfolding cur section_extent_def by (simp add: unat_add_lem [THEN iffD1])
    finally show ?thesis by simp
  qed
  show ?thesis using cur ext by blast
qed

theorem expanded_length_is_cursor_witness:
  "(case write_tftf_file demo_env zero_hdr (section_cache (parse_loop initial_parser argv_two)) 2
           ''o.tftf'' Map.empty of
      (ok, h, d) \<Rightarrow>
        ok \<and> tftf_hdr.expanded_length h = 8 \<and>
        copy_offset (section_descriptors h ! 1) +
          tftf_section.expanded_length (section_descriptors h ! 1) = 8 \<and>
        layout_extent (take 2 (section_descriptors h)) = 8)"
proof -
  obtain ok h d where
    r: "write_tftf_file demo_env zero_hdr (section_cache (parse_loop initial_parser argv_two)) 2
          ''o.tftf'' Map.empty = (ok, h, d)"
    using prod_cases3 by blast
  have c: "(case write_tftf_file demo_env zero_hdr
                   (section_cache (parse_loop initial_parser argv_two)) 2 ''o.tftf'' Map.empty of
              (ok, h, d) \<Rightarrow>
                ok \<and> tftf_hdr.expanded_length h = 8 \<and>
                copy_offset (section_descriptors h ! 0) = 0 \<and>
                tftf_section.expanded_length (section_descriptors h ! 0) = 4 \<and>
                copy_offset (section_descriptors h ! 1) = 4 \<and>
                tftf_section.expanded_length (section_descriptors h ! 1) = 4)"
    by code_simp
  then have ok: "ok" and e8: "tftf_hdr.expanded_length h = 8"
    and s0: "copy_offset (section_descriptors h ! 0) = 0"
      "tftf_section.expanded_length (section_descriptors h ! 0) = 4"
    and s1: "copy_offset (section_descriptors h ! Suc 0) = 4"
      "tftf_section.expanded_length (section_descriptors h ! Suc 0) = 4"
    by (simp_all add: r)
  have c0: "section_extent (section_descriptors h ! 0)
               \<le> unat (copy_offset (section_descriptors h ! Suc 0))"
    and c1: "section_extent (section_descriptors h ! Suc 0) < 2 ^ 32"
    by (simp_all add: section_extent_def s0 s1)
  have res: "write_tftf_file demo_env zero_hdr
               (section_cache (parse_loop initial_parser argv_two)) 2 ''o.tftf'' Map.empty
             = (True, h, d)"
    using r ok by simp
  have creat: "creat_ok demo_env"
    by (simp add: demo_env_def)
  have len: "2 \<le> length (section_descriptors zero_hdr)"
    by (simp add: zero_hdr_def TFTF_MAX_SECTIONS_def)
  have chain: "\<forall>k. Suc k < 2 \<longrightarrow>
          section_extent (section_descriptors h ! k) \<le>
          unat (copy_offset (section_descriptors h ! Suc k))"
    using c0 by (simp add: less_Suc_eq numeral_2_eq_2)
  show ?thesis
    using expanded_length_is_cursor [OF res creat len] chain c1 e8 ok
    by (simp add: r)
qed

text \<open>
  The claim as stated fails when an explicit offset moves the placement backwards: the
  sections of \<open>argv_backwards\<close> occupy the offsets 16 to 19 and 8 to 11, the layout extent
  is 20, and the header's \<open>expanded_length\<close> is 12.
\<close>

theorem expanded_length_not_extent_counterexample:
  "(case main demo_env argv_backwards Map.empty of
      (st, h, d) \<Rightarrow>
        st \<noteq> PROGRAM_ERRORS \<and>
        unat (tftf_hdr.expanded_length h) = 12 \<and>
        layout_extent (take 2 (section_descriptors h)) = 20)"
  by code_simp

subsection \<open>The build as main runs it\<close>

lemma main_build_started:
  "build_started p out \<Longrightarrow>
   main_build env p d =
     (let (ok, hdr, d') = write_tftf_file env (tftf_header p) (section_cache p)
                            (nat (section_index p + 1)) out d
      in if ok then ((if \<not> validate_tftf_header hdr then PROGRAM_WARNINGS else 0), hdr, d')
         else (PROGRAM_ERRORS, hdr, d'(out := None)))"
  by (simp add: main_build_def build_started_def)

lemma main_build_status_errors:
  assumes "build_started p out"
  shows "fst (main_build env p d) = PROGRAM_ERRORS \<longleftrightarrow>
         \<not> fst (write_tftf_file env (tftf_header p) (section_cache p)
                 (nat (section_index p + 1)) out d)"
  unfolding main_build_started [OF assms]
  by (auto simp: Let_def PROGRAM_ERRORS_def PROGRAM_WARNINGS_def split: prod.splits)

lemma main_build_unlinks:
  assumes "build_started p out"
    and "\<not> fst (write_tftf_file env (tftf_header p) (section_cache p)
                 (nat (section_index p + 1)) out d)"
  shows "snd (snd (main_build env p d)) out = None"
  using assms(2) unfolding main_build_started [OF assms(1)]
  by (auto simp: Let_def split: prod.splits)

lemma write_tftf_file_fst:
  "creat_ok env \<Longrightarrow>
   fst (write_tftf_file env h cache num out d) \<longleftrightarrow>
     (\<forall>k<num. 0 < copied env (filename (cache ! k))) \<and> hdr_write env = int TFTF_HDR_LENGTH"
  using section_loop_success_iff [of 0 num env cache h 0 "\<lparr>content = [], pos = TFTF_HDR_LENGTH\<rparr>"]
  by (auto simp: write_tftf_file_def Let_def split: prod.splits)

lemma write_tftf_file_creates:
  "creat_ok env \<Longrightarrow> snd (snd (write_tftf_file env h cache num out d)) out \<noteq> None"
  by (auto simp: write_tftf_file_def Let_def split: prod.splits)

lemma main_build_output_kept:
  assumes "build_started p out" and "creat_ok env"
    and "fst (main_build env p d) \<noteq> PROGRAM_ERRORS"
  shows "snd (snd (main_build env p d)) out \<noteq> None"
proof -
  have ok: "fst (write_tftf_file env (tftf_header p) (section_cache p)
                 (nat (section_index p + 1)) out d)"
    using main_build_status_errors [OF assms(1)] assms(3) by simp
  show ?thesis
    using ok write_tftf_file_creates [OF assms(2), of "tftf_header p" "section_cache p"
        "nat (section_index p + 1)" out d]
    unfolding main_build_started [OF assms(1)]
    by (auto simp: Let_def split: prod.splits)
qed

lemma empty_input_copied:
  "empty_input (sources env name) \<Longrightarrow> copied env name = 0"
  by (cases "sources env name" rule: empty_input.cases) (simp_all add: copied_def)

subsection \<open>A failed build and a file already at the output path\<close>

text \<open>
  Claim C10. Once \<^verbatim>\<open>main\<close> has started the build (it calls \<open>write_tftf_file\<close>, which
  opens the output path with truncation before the first section is read), a build that
  ends with \<open>PROGRAM_ERRORS\<close> leaves no file at the output path: a file that was there
  before is gone, not restored.
\<close>

theorem failed_build_destroys_previous_output:
  assumes "build_started (parse_loop initial_parser argv) out"
    and "d out = Some old"
    and "fst (main env argv d) = PROGRAM_ERRORS"
  shows "snd (snd (main env argv d)) out = None \<and> snd (snd (main env argv d)) out \<noteq> d out"
  using main_build_unlinks [OF assms(1)] main_build_status_errors [OF assms(1)] assms(2) assms(3)
  by (simp add: main_def)

theorem failed_build_destroys_previous_output_witness:
  "disk_with_output ''o.tftf'' = Some [1, 2, 3] \<and>
   fst (main demo_env argv_missing disk_with_output) = PROGRAM_ERRORS \<and>
   snd (snd (main demo_env argv_missing disk_with_output)) ''o.tftf'' = None"
proof -
  have started: "build_started (parse_loop initial_parser argv_missing) ''o.tftf''"
    by code_simp
  have old: "disk_with_output ''o.tftf'' = Some [1, 2, 3]"
    by (simp add: disk_with_output_def)
  have failed: "fst (main demo_env argv_missing disk_with_output) = PROGRAM_ERRORS"
    by code_simp
  show ?thesis
    using failed_build_destroys_previous_output [OF started old failed] old failed by simp
qed

subsection \<open>A section file of length 0\<close>

text \<open>
  Claim C7, as the code has it. \<open>copy_file\<close> reports an error (status 2) unless it copied
  at least one byte. So when the build is started, the output can be created and one of
  the sections has an input of length 0, the build fails: \<^verbatim>\<open>main\<close> returns
  \<open>PROGRAM_ERRORS\<close> and the output file is removed.
\<close>

theorem zero_length_section_fails:
  assumes "build_started (parse_loop initial_parser argv) out"
    and "creat_ok env"
    and "k < nat (section_index (parse_loop initial_parser argv) + 1)"
    and "empty_input (sources env (filename (section_cache (parse_loop initial_parser argv) ! k)))"
  shows "fst (main env argv d) = PROGRAM_ERRORS \<and> snd (snd (main env argv d)) out = None"
proof -
  let ?p = "parse_loop initial_parser argv"
  have "copied env (filename (section_cache ?p ! k)) = 0"
    using assms(4) by (rule empty_input_copied)
  then have "\<not> (\<forall>j<nat (section_index ?p + 1). 0 < copied env (filename (section_cache ?p ! j)))"
    using assms(3) by auto
  then have nok: "\<not> fst (write_tftf_file env (tftf_header ?p) (section_cache ?p)
                       (nat (section_index ?p + 1)) out d)"
    using write_tftf_file_fst [OF assms(2)] by simp
  show ?thesis
    using main_build_unlinks [OF assms(1) nok] main_build_status_errors [OF assms(1)] nok
    by (simp add: main_def)
qed

theorem zero_length_section_fails_witness:
  "empty_input (sources demo_env (filename (section_cache (parse_loop initial_parser argv_empty) ! 1))) \<and>
   fst (main demo_env argv_empty Map.empty) = PROGRAM_ERRORS \<and>
   snd (snd (main demo_env argv_empty Map.empty)) ''o.tftf'' = None"
proof -
  have started: "build_started (parse_loop initial_parser argv_empty) ''o.tftf''"
    by code_simp
  have creat: "creat_ok demo_env"
    by (simp add: demo_env_def)
  have k: "1 < nat (section_index (parse_loop initial_parser argv_empty) + 1)"
    by code_simp
  have empty: "empty_input (sources demo_env
                 (filename (section_cache (parse_loop initial_parser argv_empty) ! 1)))"
    by code_simp
  show ?thesis
    using zero_length_section_fails [OF started creat k empty] empty by simp
qed

text \<open>
  The claim as stated fails: with a section of length 0 the build does not succeed, no
  descriptor is written for that section and no output file is left.
\<close>

theorem zero_length_section_counterexample:
  "(case main demo_env argv_empty Map.empty of
      (st, h, d) \<Rightarrow>
        st = PROGRAM_ERRORS \<and> st \<noteq> PROGRAM_SUCCESS \<and> st \<noteq> PROGRAM_WARNINGS \<and>
        section_descriptors h ! 1 = zero_section \<and> d ''o.tftf'' = None)"
  by code_simp

subsection \<open>The timestamp\<close>

lemma show_nat_1: "n < 10 \<Longrightarrow> show_nat n = [digit_char n]"
  by (subst show_nat.simps) simp

lemma show_nat_2: "10 \<le> n \<Longrightarrow> n < 100 \<Longrightarrow> show_nat n = dec2 n"
  by (subst show_nat.simps) (simp add: show_nat_1 dec2_def)

lemma show_nat_3:
  "100 \<le> n \<Longrightarrow> n < 1000 \<Longrightarrow>
   show_nat n = [digit_char (n div 100), digit_char (n div 10 mod 10), digit_char (n mod 10)]"
  by (subst show_nat.simps) (simp add: show_nat_2 dec2_def div_mult2_eq [symmetric])

lemma show_nat_4: "1000 \<le> n \<Longrightarrow> n < 10000 \<Longrightarrow> show_nat n = dec4 n"
  by (subst show_nat.simps) (simp add: show_nat_3 dec4_def div_mult2_eq [symmetric])

lemma fmt_02d_dec2: "0 \<le> i \<Longrightarrow> i < 100 \<Longrightarrow> fmt_02d i = dec2 (nat i)"
proof (cases "i < 10")
  case True
  assume "0 \<le> i"
  then have "nat i < 10" using True by simp
  then show ?thesis
    using \<open>0 \<le> i\<close> by (simp add: fmt_02d_def show_nat_1 dec2_def digit_char_def)
next
  case False
  assume "0 \<le> i" "i < 100"
  then have "10 \<le> nat i" "nat i < 100" using False by simp_all
  then show ?thesis
    using \<open>0 \<le> i\<close> by (simp add: fmt_02d_def show_nat_2) (simp add: dec2_def)
qed

lemma fmt_4d_dec4: "1000 \<le> i \<Longrightarrow> i \<le> 9999 \<Longrightarrow> fmt_4d i = dec4 (nat i)"
proof -
  assume a: "1000 \<le> i" "i \<le> 9999"
  then have "1000 \<le> nat i" "nat i < 10000" by simp_all
  then have "show_nat (nat i) = dec4 (nat i)" by (rule show_nat_4)
  then show ?thesis using a by (simp add: fmt_4d_def Let_def) (simp add: dec4_def)
qed

lemma length_dec2: "length (dec2 n) = 2"
  by (simp add: dec2_def)

lemma length_dec4: "length (dec4 n) = 4"
  by (simp add: dec4_def)

lemma digit_char_digit: "d < 10 \<Longrightarrow> digit_char d \<in> set ''0123456789''"
  unfolding digit_char_def by (rule nth_mem) simp

lemma timestamp_text_range:
  assumes "gmtime_range t"
  shows "timestamp_text t =
     dec4 (nat (tm_year t + 1900)) @ dec2 (nat (tm_mon t)) @ dec2 (nat (tm_mday t)) @ '' '' @
     dec2 (nat (tm_hour t)) @ dec2 (nat (tm_min t)) @ dec2 (nat (tm_sec t))"
  using assms
  by (simp add: timestamp_text_def gmtime_range_def fmt_4d_dec4 fmt_02d_dec2)

lemma length_timestamp_text: "gmtime_range t \<Longrightarrow> length (timestamp_text t) = 15"
  by (simp add: timestamp_text_range length_dec2 length_dec4)

lemma set_timestamp_range:
  assumes "gmtime_range t" and "length (timestamp h) = TFTF_TIMESTAMP_LENGTH"
  shows "timestamp (set_timestamp t h) = timestamp_text t @ [CHR 0x00]"
  using assms(2) length_timestamp_text [OF assms(1)]
  by (simp add: set_timestamp_def Let_def TFTF_TIMESTAMP_LENGTH_def)

lemma set_timestamp_name:
  assumes "gmtime_range t" and "length (timestamp h) = TFTF_TIMESTAMP_LENGTH"
    and "length (fw_pkg_name h) = TFTF_FW_PKG_NAME_LENGTH"
  shows "fw_pkg_name (set_timestamp t h) = fw_pkg_name h"
  using assms(2,3) length_timestamp_text [OF assms(1)]
  by (simp add: set_timestamp_def Let_def TFTF_TIMESTAMP_LENGTH_def TFTF_FW_PKG_NAME_LENGTH_def)

lemma section_loop_timestamp:
  assumes res: "section_loop env cache num 0 (True, h, 0, fd) = (True, h', off', fd')"
  shows "timestamp h' = timestamp h"
proof -
  define I where "I = (\<lambda>(j::nat) (g::tftf_hdr) (x::u32). timestamp g = timestamp h)"
  have "I num h' off'"
  proof (rule section_loop_rule [OF res])
    show "0 \<le> num" by simp
    show "I 0 h 0" by (simp add: I_def)
  next
    fix j g x
    assume inv: "I j g x"
    show "I (Suc j) (place_hdr env cache j g x) (next_offset env (cache ! j) x)"
      using inv by (simp add: I_def place_hdr_def)
  qed
  then show ?thesis by (simp add: I_def)
qed

text \<open>
  Claim C9, as the code has it. After a successful \<open>write_tftf_file\<close> at a time whose
  year has four digits, the 16 bytes of \<open>timestamp\<close> are the year in four digits, two
  digits for the month, the day of the month, a space, hour, minute and second in two
  digits each, and a NUL as the sixteenth byte (\<^verbatim>\<open>sprintf\<close> terminates the string inside
  the field).
\<close>

theorem timestamp_format:
  assumes "write_tftf_file env h cache num out d = (True, h', d')"
    and "creat_ok env"
    and "length (timestamp h) = TFTF_TIMESTAMP_LENGTH"
    and "gmtime_range (now env)"
  shows "length (timestamp h') = TFTF_TIMESTAMP_LENGTH \<and>
         take 4 (timestamp h') = dec4 (nat (tm_year (now env) + 1900)) \<and>
         timestamp h' ! 4 \<in> set ''0123456789'' \<and>
         timestamp h' ! 5 \<in> set ''0123456789'' \<and>
         drop 6 (timestamp h') =
           dec2 (nat (tm_mday (now env))) @ '' '' @ dec2 (nat (tm_hour (now env))) @
           dec2 (nat (tm_min (now env))) @ dec2 (nat (tm_sec (now env))) @ [CHR 0x00]"
proof -
  obtain h1 off fd1 where
    loop: "section_loop env cache num 0 (True, h, 0, \<lparr>content = [], pos = TFTF_HDR_LENGTH\<rparr>)
             = (True, h1, off, fd1)"
    and h': "h' = set_timestamp (now env) (h1\<lparr>sentinel := TFTF_SENTINEL\<rparr>)"
    using write_tftf_file_True [OF assms(2) assms(1)] by blast
  have len: "length (timestamp (h1\<lparr>sentinel := TFTF_SENTINEL\<rparr>)) = TFTF_TIMESTAMP_LENGTH"
    using section_loop_timestamp [OF loop] assms(3) by simp
  have ts: "timestamp h' =
     dec4 (nat (tm_year (now env) + 1900)) @ dec2 (nat (tm_mon (now env))) @
     dec2 (nat (tm_mday (now env))) @ '' '' @
     dec2 (nat (tm_hour (now env))) @ dec2 (nat (tm_min (now env))) @
     dec2 (nat (tm_sec (now env))) @ [CHR 0x00]"
    unfolding h' set_timestamp_range [OF assms(4) len] timestamp_text_range [OF assms(4)]
    by simp
  have "nat (tm_mon (now env)) < 100"
    using assms(4) unfolding gmtime_range_def by linarith
  then have m: "nat (tm_mon (now env)) div 10 < 10" "nat (tm_mon (now env)) mod 10 < 10"
    by simp_all
  show ?thesis
    unfolding ts using m
    by (simp add: dec4_def dec2_def TFTF_TIMESTAMP_LENGTH_def digit_char_digit del: set_simps)
qed

theorem timestamp_format_witness:
  "gmtime_range (now demo_env) \<and>
   (case write_tftf_file demo_env zero_hdr (section_cache (parse_loop initial_parser argv_two)) 2
           ''o.tftf'' Map.empty of
      (ok, h, d) \<Rightarrow>
        ok \<and> take 4 (timestamp h) = ''2015'' \<and>
        drop 6 (timestamp h) = ''04 050607'' @ [CHR 0x00])"
proof -
  obtain ok h d where
    r: "write_tftf_file demo_env zero_hdr (section_cache (parse_loop initial_parser argv_two)) 2
          ''o.tftf'' Map.empty = (ok, h, d)"
    using prod_cases3 by blast
  have "(case write_tftf_file demo_env zero_hdr
                (section_cache (parse_loop initial_parser argv_two)) 2 ''o.tftf'' Map.empty of
           (ok, h, d) \<Rightarrow> ok)"
    by code_simp
  then have ok: "ok" by (simp add: r)
  have res: "write_tftf_file demo_env zero_hdr
               (section_cache (parse_loop initial_parser argv_two)) 2 ''o.tftf'' Map.empty
             = (True, h, d)"
    using r ok by simp
  have creat: "creat_ok demo_env"
    by (simp add: demo_env_def)
  have len: "length (timestamp zero_hdr) = TFTF_TIMESTAMP_LENGTH"
    by (simp add: zero_hdr_def)
  have range: "gmtime_range (now demo_env)"
    by (simp add: gmtime_range_def demo_env_def tm_2015_03_04_def)
  have v4: "dec4 (nat (tm_year (now demo_env) + 1900)) = ''2015''"
    by code_simp
  have v6: "dec2 (nat (tm_mday (now demo_env))) @ '' '' @ dec2 (nat (tm_hour (now demo_env))) @
            dec2 (nat (tm_min (now demo_env))) @ dec2 (nat (tm_sec (now demo_env))) @ [CHR 0x00]
            = ''04 050607'' @ [CHR 0x00]"
    by code_simp
  show ?thesis
    using timestamp_format [OF res creat len range] range ok
    unfolding v4 v6 by (simp add: r)
qed

text \<open>
  The claim as stated fails. On 4 March 2015, 05:06:07 UTC, the field reads
  \<^verbatim>\<open>20150204 050607\<close> followed by a NUL: the sixteenth byte of the field is the string
  terminator, and the month digits are those of \<^verbatim>\<open>tm_mon\<close>, which counts from 0.
\<close>

theorem timestamp_counterexample:
  "(case main demo_env argv_two Map.empty of
      (st, h, d) \<Rightarrow>
        st \<noteq> PROGRAM_ERRORS \<and>
        timestamp h = ''20150204 050607'' @ [CHR 0x00] \<and>
        \<not> claimed_timestamp (now demo_env) (timestamp h))"
  by code_simp

subsection \<open>The overlap validator\<close>

text \<open>
  On a table that ends with the marker, the validator reports exactly the pair (A, B) of
  the specification's three-section example.
\<close>

lemma three_section_example: "overlap_warnings three_section_hdr = [(0, 1)]"
  by code_simp

text \<open>
  Claim C1 does not hold of the code. \<^verbatim>\<open>validate_tftf_header\<close> computes \<open>comp_end\<close> as
  \<open>copy_offset + SECTION_END\<close>, which adds the copy offset twice. For \<open>argv_backwards\<close>
  the sections occupy 16 to 19 and 8 to 11: they do not overlap, and the pair (0, 1) is
  reported, on the table the program builds and on the same table closed by the
  end-of-table marker.
\<close>

theorem validator_reports_disjoint_pair:
  "(case main demo_env argv_backwards Map.empty of
      (st, h, d) \<Rightarrow>
        st = PROGRAM_WARNINGS \<and>
        map (\<lambda>s. (copy_offset s, SECTION_END s)) (take 2 (section_descriptors h))
          = [(16, 19), (8, 11)] \<and>
        \<not> spec_overlaps (section_descriptors h ! 0) (section_descriptors h ! 1) \<and>
        (0, 1) \<in> set (overlap_warnings h) \<and>
        overlap_warnings (with_end_marker 2 h) = [(0, 1)])"
  by code_simp

subsection \<open>The end-of-table marker\<close>

text \<open>
  Claim C4 does not hold of the code. Nothing stores
  \<open>TFTF_SECTION_TYPE_END_OF_DESCRIPTORS\<close>: after a build of one section the first unused
  descriptor is all zero, its type field included, in the header and in the 512 bytes
  written (the type field of descriptor 1 is at byte 128).
\<close>

theorem first_unused_slot_not_marked:
  "(case main demo_env argv_one Map.empty of
      (st, h, d) \<Rightarrow>
        st \<noteq> PROGRAM_ERRORS \<and>
        section_descriptors h ! 1 = zero_section \<and>
        section_type (section_descriptors h ! 1)
          \<noteq> word_of_int TFTF_SECTION_TYPE_END_OF_DESCRIPTORS \<and>
        length (hdr_bytes h) = 512 \<and>
        take 4 (drop 128 (hdr_bytes h)) = [0, 0, 0, 0])"
  by code_simp

subsection \<open>The exit status of a build without overlap\<close>

text \<open>
  Claim C5 does not hold of the code. A build of a single section has no pair of placed
  sections, and \<^verbatim>\<open>main\<close> returns \<open>PROGRAM_WARNINGS\<close>: the validator does not stop at
  the unused descriptors (they carry no end marker) and reports the section as overlapped
  by the zero descriptor behind it.
\<close>

theorem single_section_build_warns:
  "section_index (parse_loop initial_parser argv_one) = 0 \<and>
   (case main demo_env argv_one Map.empty of
      (st, h, d) \<Rightarrow>
        st = PROGRAM_WARNINGS \<and> st \<noteq> PROGRAM_SUCCESS \<and>
        section_descriptors h ! 1 = zero_section \<and>
        (0, 1) \<in> set (overlap_warnings h))"
  by code_simp

subsection \<open>A read error behind the first bytes\<close>

text \<open>
  Claim C6 does not hold of the code. \<open>copy_file\<close> leaves its loop on
  \<open>bytes_read <= 0\<close>, for a read error as for the end of the file, and fails only when no
  byte at all was copied. For \<^verbatim>\<open>bad.bin\<close>, whose second \<^verbatim>\<open>read\<close> fails, the build
  succeeds with a section of the four bytes read so far, and the output file stays.
\<close>

theorem read_error_after_first_chunk_ignored:
  "sources demo_env ''bad.bin'' = File [Chunk [1, 2, 3, 4] 4, Read_error] \<and>
   (case main demo_env argv_bad Map.empty of
      (st, h, d) \<Rightarrow>
        st \<noteq> PROGRAM_ERRORS \<and>
        section_length (section_descriptors h ! 0) = 4 \<and> load_length h = 4 \<and>
        d ''o.tftf'' \<noteq> None)"
proof -
  obtain st h d where r: "main demo_env argv_bad Map.empty = (st, h, d)"
    using prod_cases3 by blast
  have src: "sources demo_env ''bad.bin'' = File [Chunk [1, 2, 3, 4] 4, Read_error]"
    by (simp add: demo_env_def demo_sources_def)
  have "(case main demo_env argv_bad Map.empty of
           (st, h, d) \<Rightarrow>
             st \<noteq> PROGRAM_ERRORS \<and>
             section_length (section_descriptors h ! 0) = 4 \<and> load_length h = 4)"
    by code_simp
  then have a: "st \<noteq> PROGRAM_ERRORS" "section_length (section_descriptors h ! 0) = 4"
    "load_length h = 4"
    by (simp_all add: r)
  have started: "build_started (parse_loop initial_parser argv_bad) ''o.tftf''"
    by code_simp
  have creat: "creat_ok demo_env"
    by (simp add: demo_env_def)
  have r': "main_build demo_env (parse_loop initial_parser argv_bad) Map.empty = (st, h, d)"
    using r by (simp add: main_def)
  have "fst (main_build demo_env (parse_loop initial_parser argv_bad) Map.empty)
          \<noteq> PROGRAM_ERRORS"
    using a(1) r' by simp
  from main_build_output_kept [OF started creat this]
  have "d ''o.tftf'' \<noteq> None"
    using r' by simp
  then show ?thesis using a src by (simp add: r)
qed

subsection \<open>More sections than the table holds\<close>

text \<open>
  Claim C2 does not hold of the code. \<open>cache_section\<close> prints its error for the 26th
  section and still returns \<open>true\<close>: parsing succeeds with the first 25 sections cached,
  the build runs, the output file is written and \<^verbatim>\<open>main\<close> does not return
  \<open>PROGRAM_ERRORS\<close>.
\<close>

theorem too_many_sections_accepted:
  "success (parse_loop initial_parser argv_26) \<and>
   section_index (parse_loop initial_parser argv_26) = 24 \<and>
   fst (main demo_env argv_26 Map.empty) \<noteq> PROGRAM_ERRORS \<and>
   snd (snd (main demo_env argv_26 Map.empty)) ''o.tftf'' \<noteq> None"
proof -
  let ?p = "parse_loop initial_parser argv_26"
  have p: "success ?p" "section_index ?p = 24"
    by code_simp+
  have started: "build_started ?p ''o.tftf''"
    by code_simp
  have creat: "creat_ok demo_env" and hw: "hdr_write demo_env = int TFTF_HDR_LENGTH"
    by (simp_all add: demo_env_def TFTF_HDR_LENGTH_def)
  have all: "\<forall>k<25. 0 < copied demo_env (filename (section_cache ?p ! k))"
    by code_simp
  have "fst (write_tftf_file demo_env (tftf_header ?p) (section_cache ?p)
               (nat (section_index ?p + 1)) ''o.tftf'' Map.empty)"
    using write_tftf_file_fst [OF creat] all hw by (simp add: p)
  then have st: "fst (main_build demo_env ?p Map.empty) \<noteq> PROGRAM_ERRORS"
    using main_build_status_errors [OF started] by simp
  show ?thesis
    using p st main_build_output_kept [OF started creat st] by (simp add: main_def)
qed

subsection \<open>What the validator reports\<close>

lemma validate_comp_iff:
  "(b, c) \<in> set (validate_comp sections base (copy_offset (sections ! base))
                   (SECTION_END (sections ! base)) cmp) \<longleftrightarrow>
     b = base \<and> cmp \<le> c \<and> c < TFTF_MAX_SECTIONS \<and>
     (\<forall>j. cmp \<le> j \<and> j \<le> c \<longrightarrow> not_end (sections ! j)) \<and>
     code_overlaps (sections ! base) (sections ! c)"
proof (induction "TFTF_MAX_SECTIONS - cmp" arbitrary: cmp)
  case 0
  then show ?case
    by (subst validate_comp.simps) auto
next
  case (Suc n)
  then have lt: "cmp < TFTF_MAX_SECTIONS" and n: "n = TFTF_MAX_SECTIONS - (cmp + 1)"
    by simp_all
  note IH = Suc.hyps(1) [OF n]
  show ?case
  proof (cases "not_end (sections ! cmp)")
    case False
    then show ?thesis
      by (subst validate_comp.simps) (auto simp: not_end_def)
  next
    case True
    have split: "(cmp \<le> c \<and> (\<forall>j. cmp \<le> j \<and> j \<le> c \<longrightarrow> not_end (sections ! j))) \<longleftrightarrow>
                 (c = cmp \<or> (cmp + 1 \<le> c \<and> (\<forall>j. cmp + 1 \<le> j \<and> j \<le> c \<longrightarrow> not_end (sections ! j))))"
    proof -
      have "\<And>j. cmp \<le> j \<longleftrightarrow> j = cmp \<or> cmp + 1 \<le> j" by auto
      then show ?thesis using True by (metis le_refl le_antisym)
    qed
    show ?thesis
      apply (subst validate_comp.simps)
      using True lt IH split
      apply (auto simp: not_end_def code_overlaps_def Let_def)
      done
  qed
qed


lemma validate_base_iff:
  "(b, c) \<in> set (validate_base sections base) \<longleftrightarrow>
     base \<le> b \<and> b < c \<and> c < TFTF_MAX_SECTIONS \<and>
     (\<forall>j. base \<le> j \<and> j \<le> c \<longrightarrow> not_end (sections ! j)) \<and>
     code_overlaps (sections ! b) (sections ! c)"
proof (induction "TFTF_MAX_SECTIONS - base" arbitrary: base)
  case 0
  then show ?case
    by (subst validate_base.simps) auto
next
  case (Suc n)
  then have lt: "base < TFTF_MAX_SECTIONS" and n: "n = TFTF_MAX_SECTIONS - (base + 1)"
    by simp_all
  note IH = Suc.hyps(1) [OF n]
  show ?case
  proof (cases "not_end (sections ! base)")
    case False
    have "\<not> (base \<le> b \<and> b < c \<and> (\<forall>j. base \<le> j \<and> j \<le> c \<longrightarrow> not_end (sections ! j)))"
    proof
      assume a: "base \<le> b \<and> b < c \<and> (\<forall>j. base \<le> j \<and> j \<le> c \<longrightarrow> not_end (sections ! j))"
      then have "base \<le> base \<and> base \<le> c" by simp
      then have "not_end (sections ! base)" using a by blast
      then show False using False by simp
    qed
    then show ?thesis
      using False by (subst validate_base.simps) (auto simp: not_end_def)
  next
    case True
    have range: "\<And>c. base < c \<Longrightarrow>
        (\<forall>j. base \<le> j \<and> j \<le> c \<longrightarrow> not_end (sections ! j)) \<longleftrightarrow>
        (\<forall>j. base + 1 \<le> j \<and> j \<le> c \<longrightarrow> not_end (sections ! j))"
    proof -
      fix c
      assume "base < c"
      show "(\<forall>j. base \<le> j \<and> j \<le> c \<longrightarrow> not_end (sections ! j)) \<longleftrightarrow>
            (\<forall>j. base + 1 \<le> j \<and> j \<le> c \<longrightarrow> not_end (sections ! j))"
      proof (intro iffI allI impI)
        fix j
        assume "\<forall>j. base \<le> j \<and> j \<le> c \<longrightarrow> not_end (sections ! j)" "base + 1 \<le> j \<and> j \<le> c"
        then show "not_end (sections ! j)" by simp
      next
        fix j
        assume a: "\<forall>j. base + 1 \<le> j \<and> j \<le> c \<longrightarrow> not_end (sections ! j)" and b: "base \<le> j \<and> j \<le> c"
        show "not_end (sections ! j)"
        proof (cases "j = base")
          case True
          then show ?thesis using \<open>not_end (sections ! base)\<close> by simp
        next
          case False
          then have "base + 1 \<le> j \<and> j \<le> c" using b by simp
          then show ?thesis using a by blast
        qed
      qed
    qed
    have mem: "(b, c) \<in> set (validate_base sections base) \<longleftrightarrow>
        (b, c) \<in> set (validate_comp sections base (copy_offset (sections ! base))
                        (SECTION_END (sections ! base)) (base + 1)) \<or>
        (b, c) \<in> set (validate_base sections (base + 1))"
      using True lt
      by (subst validate_base.simps) (simp add: not_end_def Let_def)
    show ?thesis
    proof (cases "b = base")
      case True
      then show ?thesis
        unfolding mem validate_comp_iff IH
        using range [of c] by auto
    next
      case False
      then have "base \<le> b \<longleftrightarrow> base + 1 \<le> b" by auto
      then show ?thesis
        unfolding mem validate_comp_iff IH
        using range [of c] False by auto
    qed
  qed
qed

text \<open>
  \<open>validate_tftf_header\<close> reports the pair \<open>(b, c)\<close> exactly when \<open>b < c\<close>, no descriptor
  up to \<open>c\<close> is the end-of-table marker, and the test of the C code holds of the two
  descriptors.
\<close>

theorem overlap_warnings_iff:
  "(b, c) \<in> set (overlap_warnings h) \<longleftrightarrow>
     b < c \<and> c < TFTF_MAX_SECTIONS \<and>
     (\<forall>j\<le>c. not_end (section_descriptors h ! j)) \<and>
     code_overlaps (section_descriptors h ! b) (section_descriptors h ! c)"
  by (simp add: overlap_warnings_def validate_base_iff)

theorem overlap_warnings_iff_witness:
  "(0, 1) \<in> set (overlap_warnings three_section_hdr) \<and>
   not_end (section_descriptors three_section_hdr ! 1) \<and>
   code_overlaps (section_descriptors three_section_hdr ! 0)
     (section_descriptors three_section_hdr ! 1)"
proof -
  have m: "(0, 1) \<in> set (overlap_warnings three_section_hdr)"
    by (simp add: three_section_example)
  show ?thesis
    using m m [unfolded overlap_warnings_iff] by simp
qed

lemma code_overlaps_zero: "code_overlaps A zero_section"
  using word_n1_ge [of "copy_offset A"]
  by (simp add: code_overlaps_def zero_section_def SECTION_END_def not_less)


lemma parse_inv_initial: "parse_inv initial_parser"
  by (simp add: parse_inv_def initial_parser_def zero_hdr_def TFTF_MAX_SECTIONS_def)

lemma parse_inv_allow [simp]: "parse_inv (p\<lparr>allow_offset := b\<rparr>) = parse_inv p"
  by (simp add: parse_inv_def)

lemma parse_inv_cache_section:
  assumes "parse_inv p"
    and "ty = TFTF_SECTION_TYPE_MANIFEST \<or> ty = TFTF_SECTION_TYPE_RAW_CODE_BLOCK \<or>
         ty = TFTF_SECTION_TYPE_RAW_DATA_BLOCK"
    and "cache_section name ty (section_cache p) (int TFTF_MAX_SECTIONS) (section_index p)
           = (ok, tab, idx)"
  shows "parse_inv (p\<lparr>success := ok, section_cache := tab, section_index := idx\<rparr>)"
proof (cases "section_index p < int TFTF_MAX_SECTIONS - 1")
  case False
  then have "tab = section_cache p" "idx = section_index p"
    using assms(3) by (simp_all add: cache_section_def)
  then show ?thesis using assms(1) by (simp add: parse_inv_def)
next
  case True
  then have tab: "tab = (section_cache p)[nat (section_index p + 1) :=
              (section_cache p ! nat (section_index p + 1))\<lparr>filename := name, stype := ty\<rparr>]"
    and idx: "idx = section_index p + 1"
    using assms(3) by (auto simp: cache_section_def)
  have lo: "- 1 \<le> section_index p" and len: "length (section_cache p) = TFTF_MAX_SECTIONS"
    using assms(1) by (simp_all add: parse_inv_def)
  have inlen: "nat (section_index p + 1) < length (section_cache p)"
    using True lo len by simp
  have types: "stype (tab ! k) = TFTF_SECTION_TYPE_MANIFEST \<or>
               stype (tab ! k) = TFTF_SECTION_TYPE_RAW_CODE_BLOCK \<or>
               stype (tab ! k) = TFTF_SECTION_TYPE_RAW_DATA_BLOCK"
    if k: "int k \<le> idx" for k
  proof (cases "k = nat (section_index p + 1)")
    case True
    then show ?thesis using assms(2) inlen by (simp add: tab)
  next
    case False
    then have "int k \<le> section_index p" using k idx lo by simp
    then show ?thesis using assms(1) False by (simp add: tab parse_inv_def)
  qed
  show ?thesis
    using assms(1) True lo types idx
    by (simp add: parse_inv_def) (simp add: tab)
qed

lemma stype_offset_update:
  "stype (xs[i := (xs ! i)\<lparr>offset := v\<rparr>] ! k) = stype (xs ! k)"
  by (cases "i < length xs") (auto simp: nth_list_update list_update_beyond)

lemma parse_inv_option: "parse_inv p \<Longrightarrow> parse_inv (parse_option p opt)"
proof (cases opt)
  case (Opt_manifest x)
  assume "parse_inv p"
  then show ?thesis
    using parse_inv_cache_section [of "p\<lparr>allow_offset := False\<rparr>" TFTF_SECTION_TYPE_MANIFEST x]
    by (auto simp: parse_option_def Opt_manifest split: prod.splits)
next
  case (Opt_code x)
  assume "parse_inv p"
  then show ?thesis
    using parse_inv_cache_section [of p TFTF_SECTION_TYPE_RAW_CODE_BLOCK x]
    by (auto simp: parse_option_def Opt_code parse_inv_def split: prod.splits)
next
  case (Opt_data x)
  assume "parse_inv p"
  then show ?thesis
    using parse_inv_cache_section [of p TFTF_SECTION_TYPE_RAW_DATA_BLOCK x]
    by (auto simp: parse_option_def Opt_data split: prod.splits)
next
  case (Opt_offset x)
  assume "parse_inv p"
  then show ?thesis
    by (auto simp: parse_option_def Opt_offset parse_inv_def stype_offset_update
        split: prod.splits)
next
  case (Opt_name x)
  assume "parse_inv p"
  then show ?thesis
    by (auto simp: parse_option_def Opt_name parse_inv_def strncpy_def)
qed (auto simp: parse_option_def parse_inv_def split: prod.splits)

lemma parse_inv_loop: "parse_inv p \<Longrightarrow> parse_inv (parse_loop p argv)"
  by (induction argv arbitrary: p) (simp_all add: parse_inv_option)

lemma parse_inv_argv: "parse_inv (parse_loop initial_parser argv)"
  by (rule parse_inv_loop [OF parse_inv_initial])


lemma section_loop_types:
  assumes res: "section_loop env cache num 0 (True, h, 0, fd) = (True, h', off', fd')"
    and len: "num \<le> length (section_descriptors h)"
  shows "\<forall>k<num. section_type (section_descriptors h' ! k) = word_of_int (stype (cache ! k))"
proof -
  define I where "I = (\<lambda>j (g::tftf_hdr) (x::u32).
     length (section_descriptors g) = length (section_descriptors h) \<and>
     (\<forall>k<j. section_type (section_descriptors g ! k) = word_of_int (stype (cache ! k))))"
  have "I num h' off'"
  proof (rule section_loop_rule [OF res])
    show "0 \<le> num" by simp
    show "I 0 h 0" by (simp add: I_def)
  next
    fix j g x
    assume j: "0 \<le> j" "j < num" and inv: "I j g x"
    have lj: "j < length (section_descriptors g)"
      using inv j len by (simp add: I_def)
    show "I (Suc j) (place_hdr env cache j g x) (next_offset env (cache ! j) x)"
      unfolding I_def place_hdr_def
      using inv lj by (auto simp: I_def placed_def nth_list_update less_Suc_eq)
  qed
  then show ?thesis by (simp add: I_def)
qed

lemma not_end_types:
  "ty = TFTF_SECTION_TYPE_MANIFEST \<or> ty = TFTF_SECTION_TYPE_RAW_CODE_BLOCK \<or>
   ty = TFTF_SECTION_TYPE_RAW_DATA_BLOCK \<Longrightarrow> section_type s = word_of_int ty \<Longrightarrow> not_end s"
  by (auto simp: not_end_def TFTF_SECTION_TYPE_MANIFEST_def TFTF_SECTION_TYPE_RAW_CODE_BLOCK_def
      TFTF_SECTION_TYPE_RAW_DATA_BLOCK_def TFTF_SECTION_TYPE_END_OF_DESCRIPTORS_def)

lemma not_end_zero: "not_end zero_section"
  by (simp add: not_end_def zero_section_def TFTF_SECTION_TYPE_END_OF_DESCRIPTORS_def)

subsection \<open>Builds of fewer than 25 sections\<close>

text \<open>
  Every build that \<^verbatim>\<open>main\<close> starts with fewer than \<open>TFTF_MAX_SECTIONS\<close> sections and
  that does not fail ends with \<open>PROGRAM_WARNINGS\<close>, whatever the placement: the first
  unused descriptor is zero, not the end-of-table marker, and the validator reports the
  first section as overlapped by it.
\<close>

theorem short_build_always_warns:
  assumes started: "build_started (parse_loop initial_parser argv) out"
    and creat: "creat_ok env"
    and ok: "fst (main env argv d) \<noteq> PROGRAM_ERRORS"
    and short: "section_index (parse_loop initial_parser argv) + 1 < int TFTF_MAX_SECTIONS"
  shows "fst (main env argv d) = PROGRAM_WARNINGS \<and>
         section_descriptors (fst (snd (main env argv d)))
           ! nat (section_index (parse_loop initial_parser argv) + 1) = zero_section"
proof -
  let ?p = "parse_loop initial_parser argv"
  let ?n = "nat (section_index ?p + 1)"
  have inv: "parse_inv ?p" by (rule parse_inv_argv)
  have idx: "0 \<le> section_index ?p"
    using inv started by (simp add: parse_inv_def build_started_def)
  have n: "0 < ?n" "?n < TFTF_MAX_SECTIONS"
    using idx short by simp_all
  have descs: "section_descriptors (tftf_header ?p) = replicate TFTF_MAX_SECTIONS zero_section"
    using inv by (simp add: parse_inv_def)
  obtain okw h' d' where
    w: "write_tftf_file env (tftf_header ?p) (section_cache ?p) ?n out d = (okw, h', d')"
    using prod_cases3 by blast
  have "okw"
    using main_build_status_errors [OF started, of env d] ok w by (simp add: main_def)
  then have wT: "write_tftf_file env (tftf_header ?p) (section_cache ?p) ?n out d = (True, h', d')"
    using w by simp
  obtain h1 off fd1 where
    loop: "section_loop env (section_cache ?p) ?n 0
             (True, tftf_header ?p, 0, \<lparr>content = [], pos = TFTF_HDR_LENGTH\<rparr>)
           = (True, h1, off, fd1)"
    and h': "h' = set_timestamp (now env) (h1\<lparr>sentinel := TFTF_SENTINEL\<rparr>)"
    using write_tftf_file_True [OF creat wT] by blast
  have d1: "section_descriptors h' = section_descriptors h1"
    by (simp add: h' set_timestamp_descriptors)
  have len: "?n \<le> length (section_descriptors (tftf_header ?p))"
    using n descs by simp
  have unused: "section_descriptors h' ! ?n = zero_section"
    using section_loop_untouched [OF loop] descs n d1 by simp
  have placed: "not_end (section_descriptors h' ! k)" if "k < ?n" for k
  proof -
    have "int k \<le> section_index ?p" using that by simp
    then have ty: "stype (section_cache ?p ! k) = TFTF_SECTION_TYPE_MANIFEST \<or>
                   stype (section_cache ?p ! k) = TFTF_SECTION_TYPE_RAW_CODE_BLOCK \<or>
                   stype (section_cache ?p ! k) = TFTF_SECTION_TYPE_RAW_DATA_BLOCK"
      using inv by (simp add: parse_inv_def)
    have "section_type (section_descriptors h' ! k) = word_of_int (stype (section_cache ?p ! k))"
      using section_loop_types [OF loop len] that d1 by simp
    then show ?thesis using ty by (rule not_end_types [rotated])
  qed
  have all: "\<forall>j\<le>?n. not_end (section_descriptors h' ! j)"
  proof (intro allI impI)
    fix j assume "j \<le> ?n"
    then consider "j < ?n" | "j = ?n" by linarith
    then show "not_end (section_descriptors h' ! j)"
      using placed unused not_end_zero by cases simp_all
  qed
  have "(0, ?n) \<in> set (overlap_warnings h')"
    unfolding overlap_warnings_iff using n all unused code_overlaps_zero by simp
  then have "\<not> validate_tftf_header h'"
    by (auto simp: validate_tftf_header_def)
  then have m: "main env argv d = (PROGRAM_WARNINGS, h', d')"
    unfolding main_def main_build_started [OF started] using wT by simp
  show ?thesis using m unused by simp
qed

theorem short_build_always_warns_witness:
  "fst (main demo_env argv_one Map.empty) = PROGRAM_WARNINGS \<and>
   section_descriptors (fst (snd (main demo_env argv_one Map.empty))) ! 1 = zero_section"
proof -
  let ?p = "parse_loop initial_parser argv_one"
  have started: "build_started ?p ''o.tftf''"
    by code_simp
  have idx: "section_index ?p = 0"
    by code_simp
  have creat: "creat_ok demo_env" and hw: "hdr_write demo_env = int TFTF_HDR_LENGTH"
    by (simp_all add: demo_env_def TFTF_HDR_LENGTH_def)
  have all: "\<forall>k<1. 0 < copied demo_env (filename (section_cache ?p ! k))"
    by code_simp
  have "fst (write_tftf_file demo_env (tftf_header ?p) (section_cache ?p)
               (nat (section_index ?p + 1)) ''o.tftf'' Map.empty)"
    using write_tftf_file_fst [OF creat] all hw by (simp add: idx)
  then have ok: "fst (main demo_env argv_one Map.empty) \<noteq> PROGRAM_ERRORS"
    using main_build_status_errors [OF started] by (simp add: main_def)
  have short: "section_index ?p + 1 < int TFTF_MAX_SECTIONS"
    by (simp add: idx TFTF_MAX_SECTIONS_def)
  show ?thesis
    using short_build_always_warns [OF started creat ok short] by (simp add: idx)
qed

subsection \<open>Further properties of the program\<close>

lemma cache_section_succeeds: "fst (cache_section name ty tab len idx) = True"
  by (simp add: cache_section_def)

lemma parse_option_success:
  "success p \<Longrightarrow> numbers_ok opt \<Longrightarrow> success (parse_option p opt)"
  by (cases opt rule: numbers_ok.cases)
     (auto simp: parse_option_def cache_section_def split: prod.splits if_splits)

text \<open>
  Option parsing fails only on a malformed number: however many sections the command
  line names, \<open>success\<close> stays true.
\<close>

theorem parsing_never_rejects_sections:
  "success p \<Longrightarrow> \<forall>opt \<in> set argv. numbers_ok opt \<Longrightarrow> success (parse_loop p argv)"
  by (induction argv arbitrary: p) (simp_all add: parse_option_success)

theorem parsing_never_rejects_sections_witness:
  "length argv_26 = 27 \<and> success (parse_loop initial_parser argv_26)"
proof -
  have s: "success initial_parser"
    by (simp add: initial_parser_def)
  have a: "\<forall>opt \<in> set argv_26. numbers_ok opt"
    by (auto simp: argv_26_def)
  show ?thesis
    using parsing_never_rejects_sections [OF s a] by (simp add: argv_26_def)
qed

lemma copy_total_read_error:
  "buf \<noteq> [] \<Longrightarrow> 0 < w \<Longrightarrow> copy_total (Chunk buf w # Read_error # rest) 0 = w"
  by simp

text \<open>
  A read error that follows a chunk that was read and written is taken for the end of
  the file: \<open>copy_file\<close> returns 0 and the section has the length copied so far.
\<close>

theorem copy_file_ignores_late_read_error:
  assumes "sources env name = File (Chunk buf w # Read_error # rest)"
    and "buf \<noteq> []" and "0 < w"
  shows "fst (copy_file env name fd s) = 0 \<and>
         section_length (fst (snd (copy_file env name fd s))) = word_of_int w"
  using assms by (simp add: copy_file_status copy_file_section copied_def)

theorem copy_file_ignores_late_read_error_witness:
  "fst (copy_file demo_env ''bad.bin'' \<lparr>content = [], pos = 512\<rparr> zero_section) = 0 \<and>
   section_length (fst (snd
     (copy_file demo_env ''bad.bin'' \<lparr>content = [], pos = 512\<rparr> zero_section))) = 4"
  using copy_file_ignores_late_read_error
    [of demo_env "''bad.bin''" "[1, 2, 3, 4]" 4 "[]" "\<lparr>content = [], pos = 512\<rparr>" zero_section]
  by (simp add: demo_env_def demo_sources_def)

lemma length_le32: "length (le32 w) = 4"
  by (simp add: le32_def)

lemma length_section_bytes: "length (section_bytes s) = 16"
  by (simp add: section_bytes_def length_le32)

lemma length_concat_section_bytes:
  "length (concat (map section_bytes ss)) = 16 * length ss"
  by (induction ss) (simp_all add: length_section_bytes)

lemma length_hdr_bytes:
  assumes "length (timestamp h) = TFTF_TIMESTAMP_LENGTH"
    and "length (fw_pkg_name h) = TFTF_FW_PKG_NAME_LENGTH"
    and "length (section_descriptors h) = TFTF_MAX_SECTIONS"
    and "length (padding h) = TFTF_PADDING"
  shows "length (hdr_bytes h) = TFTF_HDR_LENGTH"
  using assms
  by (simp add: hdr_bytes_def length_le32 length_concat_section_bytes TFTF_TIMESTAMP_LENGTH_def
      TFTF_FW_PKG_NAME_LENGTH_def TFTF_MAX_SECTIONS_def TFTF_PADDING_def TFTF_HDR_LENGTH_def)

lemma set_timestamp_lengths:
  assumes "length (timestamp h) = TFTF_TIMESTAMP_LENGTH"
    and "length (fw_pkg_name h) = TFTF_FW_PKG_NAME_LENGTH"
  shows "length (timestamp (set_timestamp t h)) = TFTF_TIMESTAMP_LENGTH"
    and "length (fw_pkg_name (set_timestamp t h)) = TFTF_FW_PKG_NAME_LENGTH"
    and "padding (set_timestamp t h) = padding h"
  using assms
  by (auto simp: set_timestamp_def Let_def TFTF_TIMESTAMP_LENGTH_def TFTF_FW_PKG_NAME_LENGTH_def)

lemma section_loop_frame:
  assumes res: "section_loop env cache num i (ok, h, off, fd) = (ok', h', off', fd')"
  shows "timestamp h' = timestamp h \<and> fw_pkg_name h' = fw_pkg_name h \<and>
         padding h' = padding h \<and>
         length (section_descriptors h') = length (section_descriptors h)"
  using res
proof (induction "num - i" arbitrary: i ok h off fd)
  case 0
  then show ?case by (simp add: section_loop_stop)
next
  case (Suc n)
  then have lt: "i < num" and n: "n = num - Suc i" by simp_all
  show ?case
  proof (cases ok)
    case False
    then show ?thesis using Suc.prems by (simp add: section_loop_stop)
  next
    case True
    show ?thesis
    proof (cases "0 < copied env (filename (cache ! i))")
      case False
      then show ?thesis
        using Suc.prems True section_loop_fail [OF lt False, of h off fd] by simp
    next
      case c: True
      have "section_loop env cache num (Suc i)
              (True, place_hdr env cache i h off, next_offset env (cache ! i) off,
               snd (snd (copy_file env (filename (cache ! i)) fd (section_descriptors h ! i))))
            = (ok', h', off', fd')"
        using Suc.prems True section_loop_step [OF lt c, of h off fd] by simp
      from Suc.hyps(1) [OF n this] show ?thesis
        by (simp add: place_hdr_def)
    qed
  qed
qed

text \<open>
  Whatever the options and the answers of the system, the header \<^verbatim>\<open>main\<close> ends with
  takes exactly \<open>TFTF_HDR_LENGTH\<close> = 512 bytes when it is written.
\<close>

theorem header_is_512_bytes:
  "length (hdr_bytes (fst (snd (main env argv d)))) = TFTF_HDR_LENGTH"
proof -
  let ?p = "parse_loop initial_parser argv"
  have inv: "parse_inv ?p" by (rule parse_inv_argv)
  then have p: "length (timestamp (tftf_header ?p)) = TFTF_TIMESTAMP_LENGTH"
    "length (fw_pkg_name (tftf_header ?p)) = TFTF_FW_PKG_NAME_LENGTH"
    "length (section_descriptors (tftf_header ?p)) = TFTF_MAX_SECTIONS"
    "length (padding (tftf_header ?p)) = TFTF_PADDING"
    by (simp_all add: parse_inv_def)
  have w: "length (timestamp h') = TFTF_TIMESTAMP_LENGTH \<and>
           length (fw_pkg_name h') = TFTF_FW_PKG_NAME_LENGTH \<and>
           length (section_descriptors h') = TFTF_MAX_SECTIONS \<and>
           length (padding h') = TFTF_PADDING"
    if "write_tftf_file env (tftf_header ?p) (section_cache ?p) num out d = (okw, h', d')"
    for num out okw h' d'
  proof (cases "creat_ok env")
    case False
    then show ?thesis using that p by (simp add: write_tftf_file_no_creat)
  next
    case True
    obtain ok1 h1 off fd1 where
      loop: "section_loop env (section_cache ?p) num 0
               (True, tftf_header ?p, 0, \<lparr>content = [], pos = TFTF_HDR_LENGTH\<rparr>)
             = (ok1, h1, off, fd1)"
      using prod_cases4 by blast
    note f = section_loop_frame [OF loop]
    have "h' = h1 \<or> h' = set_timestamp (now env) (h1\<lparr>sentinel := TFTF_SENTINEL\<rparr>)"
      using that True loop by (auto simp: write_tftf_file_def Let_def split: if_splits)
    then show ?thesis
      using f p set_timestamp_lengths [of "h1\<lparr>sentinel := TFTF_SENTINEL\<rparr>" "now env"]
        set_timestamp_descriptors [of "now env" "h1\<lparr>sentinel := TFTF_SENTINEL\<rparr>"]
      by auto
  qed
  have "length (timestamp (fst (snd (main env argv d)))) = TFTF_TIMESTAMP_LENGTH \<and>
        length (fw_pkg_name (fst (snd (main env argv d)))) = TFTF_FW_PKG_NAME_LENGTH \<and>
        length (section_descriptors (fst (snd (main env argv d)))) = TFTF_MAX_SECTIONS \<and>
        length (padding (fst (snd (main env argv d)))) = TFTF_PADDING"
    using p w
    by (auto simp: main_def main_build_def Let_def split: option.splits prod.splits)
  then show ?thesis by (simp add: length_hdr_bytes)
qed

end
